theory Spec2Isabelle
  imports Complex_Main "HOL-Library.Product_Lexorder"
begin

section \<open>Python values used by the statement parser\<close>

text \<open>
  A Python \<open>str\<close> is a \<open>string\<close>; token and page texts are taken over the ASCII
  alphabet plus the pound sign (code point 163), and the Unicode tables behind
  \<open>str.upper\<close>, \<open>str.isdigit\<close> and the regular-expression classes are modelled on that
  alphabet only. An amount parsed from a token is kept as the decimal number the token
  spells; the program holds the double nearest to it, and where the program computes
  with amounts, in the validator, the model computes with these doubles. A position is
  the number the tokenizer reports.
\<close>

definition pound :: char where
  "pound = CHR 0xA3"

definition upper_char :: "char \<Rightarrow> char" where
  "upper_char c =
     (case map_of (zip ''abcdefghijklmnopqrstuvwxyz'' ''ABCDEFGHIJKLMNOPQRSTUVWXYZ'') c of
        Some u \<Rightarrow> u
      | None \<Rightarrow> c)"

definition lower_char :: "char \<Rightarrow> char" where
  "lower_char c =
     (case map_of (zip ''ABCDEFGHIJKLMNOPQRSTUVWXYZ'' ''abcdefghijklmnopqrstuvwxyz'') c of
        Some l \<Rightarrow> l
      | None \<Rightarrow> c)"

definition upper :: "string \<Rightarrow> string" where
  "upper s = map upper_char s"

definition lower :: "string \<Rightarrow> string" where
  "lower s = map lower_char s"

definition is_digit :: "char \<Rightarrow> bool" where
  "is_digit c = (c \<in> set ''0123456789'')"

text \<open>\<open>str.isdigit\<close>: non-empty and every character a digit.\<close>

definition isdigit :: "string \<Rightarrow> bool" where
  "isdigit s = (s \<noteq> [] \<and> list_all is_digit s)"

text \<open>The class \<open>\s\<close> of the \<open>re\<close> module, which is also what \<open>str.strip\<close> removes.\<close>

definition is_space :: "char \<Rightarrow> bool" where
  "is_space c =
     (c \<in> set [CHR 0x09, CHR 0x0A, CHR 0x0B, CHR 0x0C, CHR 0x0D,
                CHR 0x1C, CHR 0x1D, CHR 0x1E, CHR 0x1F, CHR 0x20])"

definition strip :: "string \<Rightarrow> string" where
  "strip s = rev (dropWhile is_space (rev (dropWhile is_space s)))"

text \<open>\<open>sep.join(parts)\<close>.\<close>

fun join :: "string \<Rightarrow> string list \<Rightarrow> string" where
  "join sep [] = []"
| "join sep [p] = p"
| "join sep (p # q # ps) = p @ sep @ join sep (q # ps)"

text \<open>\<open>sub in s\<close> on strings: \<open>sub\<close> occurs somewhere in \<open>s\<close>.\<close>

fun starts_with :: "string \<Rightarrow> string \<Rightarrow> bool" where
  "starts_with [] s = True"
| "starts_with (c # cs) [] = False"
| "starts_with (c # cs) (d # ds) = (c = d \<and> starts_with cs ds)"

fun contains :: "string \<Rightarrow> string \<Rightarrow> bool" where
  "contains sub [] = (sub = [])"
| "contains sub (c # cs) = (starts_with sub (c # cs) \<or> contains sub cs)"

text \<open>
  \<open>round(v, 0)\<close>: to the nearest integer, a tie going to the even neighbour.
\<close>

definition py_round :: "rat \<Rightarrow> int" where
  "py_round v =
     (let f = \<lfloor>v\<rfloor>; d = v - of_int f
      in if d < 1 / 2 then f
         else if 1 / 2 < d then f + 1
         else if even f then f else f + 1)"

subsection \<open>Amounts\<close>

definition digit_val :: "char \<Rightarrow> nat" where
  "digit_val c = of_char c - 48"

definition dec_val :: "string \<Rightarrow> nat" where
  "dec_val ds = foldl (\<lambda>n c. 10 * n + digit_val c) 0 ds"

text \<open>
  \<open>float(s)\<close> on unsigned decimal literals (digits, at most one point, at least one
  digit), the only strings \<open>parse_amount\<close> is given by its callers; \<open>None\<close> is the
  \<open>ValueError\<close>.
\<close>

definition py_float :: "string \<Rightarrow> rat option" where
  "py_float s =
     (let ip = takeWhile is_digit s; rest = dropWhile is_digit s
      in case rest of
           [] \<Rightarrow> if ip = [] then None else Some (of_nat (dec_val ip))
         | c # fp \<Rightarrow>
             if c = CHR ''.'' \<and> list_all is_digit fp \<and> (ip \<noteq> [] \<or> fp \<noteq> [])
             then Some (of_nat (dec_val ip) + of_nat (dec_val fp) / 10 ^ length fp)
             else None)"

definition parse_amount :: "string \<Rightarrow> rat" where
  "parse_amount amount_str =
     (if amount_str = [] then 0
      else
        let clean = strip (filter (\<lambda>c. c \<noteq> pound) (filter (\<lambda>c. c \<noteq> CHR '','') amount_str))
        in case py_float clean of Some v \<Rightarrow> v | None \<Rightarrow> 0)"

text \<open>
  The body \<open>[\d,]+\.\d{2}\<close> of both amount patterns, matched at the start of \<open>s\<close>: the
  matched text and what follows it. The class run is greedy, and since it must be
  followed by a point, which is not in the class, only the longest run can match.
\<close>

definition amount_prefix :: "string \<Rightarrow> (string \<times> string) option" where
  "amount_prefix s =
     (let run = takeWhile (\<lambda>c. is_digit c \<or> c = CHR '','') s;
          rest = dropWhile (\<lambda>c. is_digit c \<or> c = CHR '','') s
      in if run = [] then None
         else case rest of
                p # d1 # d2 # after \<Rightarrow>
                  if p = CHR ''.'' \<and> is_digit d1 \<and> is_digit d2
                  then Some (run @ [p, d1, d2], after) else None
              | _ \<Rightarrow> None)"

text \<open>
  \<open>AMOUNT_PATTERN.match(text)\<close> for \<open>^[\d,]+\.\d{2}$\<close>: the whole text, where \<open>$\<close>
  also accepts one final newline.
\<close>

definition AMOUNT_PATTERN_match :: "string \<Rightarrow> bool" where
  "AMOUNT_PATTERN_match text =
     (case amount_prefix text of
        None \<Rightarrow> False
      | Some (m, after) \<Rightarrow> after = [] \<or> after = [CHR 0x0A])"

subsection \<open>Dates\<close>

text \<open>
  A \<open>datetime\<close> built by \<open>strptime\<close> from day, month and year has midnight as its
  time, so it is the triple (year, month, day), compared lexicographically.
\<close>

type_synonym datetime = "nat \<times> nat \<times> nat"

definition month_names :: "string list" where
  "month_names = [''Jan'', ''Feb'', ''Mar'', ''Apr'', ''May'', ''Jun'',
                  ''Jul'', ''Aug'', ''Sep'', ''Oct'', ''Nov'', ''Dec'']"

fun index_of :: "'a \<Rightarrow> 'a list \<Rightarrow> nat option" where
  "index_of a [] = None"
| "index_of a (b # bs) = (if a = b then Some 0 else map_option Suc (index_of a bs))"

definition is_leap :: "nat \<Rightarrow> bool" where
  "is_leap y = (y mod 4 = 0 \<and> (y mod 100 \<noteq> 0 \<or> y mod 400 = 0))"

definition days_in_month :: "nat \<Rightarrow> nat \<Rightarrow> nat" where
  "days_in_month y m =
     (if m = 2 then (if is_leap y then 29 else 28)
      else if m \<in> {4, 6, 9, 11} then 30 else 31)"

text \<open>
  \<open>datetime.strptime(f"{day} {month} {year}", '%d %b %y')\<close> on three parts without
  white space (each part the classifier collects is a digit string or a month name):
  \<open>%d\<close> is \<open>3[01]|[12]\d|0[1-9]|[1-9]\<close>, \<open>%b\<close> an English month abbreviation in any
  letter case, \<open>%y\<close> exactly two digits with the pivot 69; a day the month does not have is a
  \<open>ValueError\<close>, which \<open>parse_date_parts\<close> turns into \<open>None\<close>.
\<close>

definition parse_date_parts :: "string \<Rightarrow> string \<Rightarrow> string \<Rightarrow> datetime option" where
  "parse_date_parts day month year =
     (if \<not> (list_all is_digit day \<and> (length day = 1 \<or> length day = 2)
             \<and> 1 \<le> dec_val day \<and> dec_val day \<le> 31) then None
      else case index_of (lower month) (map lower month_names) of
             None \<Rightarrow> None
           | Some mi \<Rightarrow>
               if \<not> (list_all is_digit year \<and> length year = 2) then None
               else
                 let yy = dec_val year;
                     y = (if yy \<le> 68 then 2000 + yy else 1900 + yy);
                     m = Suc mi;
                     d = dec_val day
                 in if d \<le> days_in_month y m then Some (y, m, d) else None)"

section \<open>Double-precision numbers\<close>

text \<open>
  The values of a Python \<open>float\<close>: the finite ones by the rational they denote (the two
  zeros are not told apart, since no comparison does), the infinities and not-a-number.
\<close>

datatype double = Finite rat | PInf | NInf | NaN

text \<open>The number of halvings that bring a positive integer down to 1.\<close>

function log2_floor :: "int \<Rightarrow> int" where
  "log2_floor n = (if n < 2 then 0 else 1 + log2_floor (n div 2))"
  by pat_completeness auto
termination
  by (relation "measure nat") auto

definition pow2 :: "int \<Rightarrow> rat" where
  "pow2 k = (if 0 \<le> k then 2 ^ nat k else 1 / 2 ^ nat (- k))"

text \<open>The integer \<open>k\<close> with \<open>2 ^ k \<le> a < 2 ^ (k + 1)\<close>, for a positive \<open>a\<close>.\<close>

definition binary_exponent :: "rat \<Rightarrow> int" where
  "binary_exponent a =
     (let (p, q) = quotient_of a;
          k = log2_floor p - log2_floor q
      in if pow2 k \<le> a then k else k - 1)"

text \<open>
  The double nearest to a rational, a tie going to the even significand: 53 significant
  bits, no unit below \<open>2 ^ -1074\<close>, and infinity when the rounded magnitude reaches
  \<open>2 ^ 1024\<close>. This is what \<open>float\<close> does on a decimal string and what each
  arithmetic operation does to its exact result.
\<close>

definition round_double :: "rat \<Rightarrow> double" where
  "round_double v =
     (if v = 0 then Finite 0
      else
        let a = \<bar>v\<bar>;
            e = max (binary_exponent a - 52) (- 1074);
            m = py_round (a / pow2 e)
        in if 971 < e \<or> (e = 971 \<and> m = 2 ^ 53)
           then (if 0 < v then PInf else NInf)
           else Finite (sgn v * of_int m * pow2 e))"

fun float_neg :: "double \<Rightarrow> double" where
  "float_neg (Finite a) = Finite (- a)"
| "float_neg PInf = NInf"
| "float_neg NInf = PInf"
| "float_neg NaN = NaN"

fun float_add :: "double \<Rightarrow> double \<Rightarrow> double" where
  "float_add (Finite a) (Finite b) = round_double (a + b)"
| "float_add NaN y = NaN"
| "float_add x NaN = NaN"
| "float_add PInf NInf = NaN"
| "float_add NInf PInf = NaN"
| "float_add PInf y = PInf"
| "float_add NInf y = NInf"
| "float_add x PInf = PInf"
| "float_add x NInf = NInf"

definition float_sub :: "double \<Rightarrow> double \<Rightarrow> double" where
  "float_sub x y = float_add x (float_neg y)"

fun float_abs :: "double \<Rightarrow> double" where
  "float_abs (Finite a) = Finite \<bar>a\<bar>"
| "float_abs PInf = PInf"
| "float_abs NInf = PInf"
| "float_abs NaN = NaN"

fun float_less :: "double \<Rightarrow> double \<Rightarrow> bool" where
  "float_less (Finite a) (Finite b) = (a < b)"
| "float_less NaN y = False"
| "float_less x NaN = False"
| "float_less NInf NInf = False"
| "float_less NInf y = True"
| "float_less x PInf = (x \<noteq> PInf)"
| "float_less x y = False"

section \<open>Data model\<close>

record Transaction =
  date :: datetime
  payment_type :: string
  description :: string
  paid_out :: "rat option"
  paid_in :: "rat option"
  balance :: "rat option"
  raw_lines :: "string list"

record StatementSummary =
  opening_balance :: rat
  closing_balance :: rat
  payments_in :: rat
  payments_out :: rat
  statement_start :: "datetime option"
  statement_end :: "datetime option"

text \<open>
  The entries of the lists \<open>errors\<close> and \<open>warnings\<close>. The source formats them as
  text; the model keeps which message it is and the numbers it reports.
\<close>

datatype message =
    FileNotFound
  | NotAPdf
  | NoContent
  | ErrorParsing string
  | NoTransactionsExtracted
  | NoSummaryForValidation
  | PaymentsInMismatch double double
  | PaymentsOutMismatch double double
  | BalanceCalculation double double double double double

text \<open>
  A token of the external tokenizer, a dictionary with the keys \<open>text\<close>, \<open>x0\<close> and
  \<open>top\<close>.
\<close>

record token =
  tok_text :: string
  tok_x0 :: rat
  tok_top :: rat

text \<open>A word of a grouped line, the dictionary \<open>{'x': ..., 'text': ...}\<close>, as a pair.\<close>

type_synonym line_word = "rat \<times> string"

section \<open>Word-level extraction\<close>

definition PAYMENT_TYPES :: "string list" where
  "PAYMENT_TYPES = [''DD'', ''VIS'', ''BP'', ''CR'', ''SO'', ''OBP'', '')))'', ''FPO'', ''FPI'',
                    ''CHQ'', ''ATM'', ''TFR'', ''INT'', ''DR'', ''DL'']"

definition COL_DATE_MAX :: rat where "COL_DATE_MAX = 100"
definition COL_PAYMENT_TYPE_MIN :: rat where "COL_PAYMENT_TYPE_MIN = 100"
definition COL_PAYMENT_TYPE_MAX :: rat where "COL_PAYMENT_TYPE_MAX = 130"
definition COL_DESCRIPTION_MIN :: rat where "COL_DESCRIPTION_MIN = 130"
definition COL_PAID_OUT_MIN :: rat where "COL_PAID_OUT_MIN = 350"
definition COL_PAID_OUT_MAX :: rat where "COL_PAID_OUT_MAX = 430"
definition COL_PAID_IN_MIN :: rat where "COL_PAID_IN_MIN = 430"
definition COL_PAID_IN_MAX :: rat where "COL_PAID_IN_MAX = 510"
definition COL_BALANCE_MIN :: rat where "COL_BALANCE_MIN = 510"

subsection \<open>Grouping the tokens of a page into lines\<close>

text \<open>
  The dictionary \<open>lines\<close>, from a rounded vertical offset to the words seen at it, as an
  association list in insertion order; one step of the loop over the page's tokens.
\<close>

definition add_word :: "(int \<times> line_word list) list \<Rightarrow> token \<Rightarrow> (int \<times> line_word list) list" where
  "add_word lines w =
     (let y = py_round (tok_top w);
          lines' = (if y \<notin> set (map fst lines) then lines @ [(y, [])] else lines)
      in map (\<lambda>(k, ws). if k = y then (k, ws @ [(tok_x0 w, tok_text w)]) else (k, ws)) lines')"

definition group_lines :: "token list \<Rightarrow> (int \<times> line_word list) list" where
  "group_lines words = foldl add_word [] words"

text \<open>
  The lines of a page in the order the loop visits them: \<open>sorted(lines.keys())\<close>, and
  for each key \<open>sorted(lines[y], key=lambda w: w['x'])\<close>.
\<close>

definition page_lines :: "token list \<Rightarrow> line_word list list" where
  "page_lines words =
     (let lines = group_lines words
      in map (\<lambda>y. sort_key fst (the (map_of lines y))) (sort (map fst lines)))"

subsection \<open>Noise lines\<close>

definition skip_markers :: "string list" where
  "skip_markers =
     [''CONTACT TEL'', ''TEXT PHONE'', ''WWW.HSBC'', ''YOUR STATEMENT'',
      ''ACCOUNT NAME'', ''SORTCODE'', ''SHEET NUMBER'', ''BRANCH IDENTIFIER'',
      ''INTERNATIONAL BANK'', ''OPENINGBALANCE'', ''CLOSINGBALANCE'',
      ''PAYMENTS IN'', ''PAYMENTS OUT'', ''ARRANGEDOVERDRAFT'',
      ''HANOVER STREET'', ''PAYMENT TYPE AND DETAILS'',
      ''YOUR BANK ACCOUNT'', ''YOUR DEPOSIT'', ''FINANCIAL SERVICES'',
      ''CREDIT INTEREST'', ''DEBIT INTEREST'', ''AER BALANCE'', ''EAR BALANCE'']"

definition line_text :: "line_word list \<Rightarrow> string" where
  "line_text line_words = upper (join '' '' (map snd line_words))"

definition is_skipped :: "line_word list \<Rightarrow> bool" where
  "is_skipped line_words = list_ex (\<lambda>skip. contains skip (line_text line_words)) skip_markers"

definition no_spaces :: "string \<Rightarrow> string" where
  "no_spaces s = filter (\<lambda>c. c \<noteq> CHR '' '') s"

definition is_brought_forward :: "line_word list \<Rightarrow> bool" where
  "is_brought_forward line_words =
     contains ''BALANCEBROUGHTFORWARD'' (no_spaces (line_text line_words))"

definition is_carried_forward :: "line_word list \<Rightarrow> bool" where
  "is_carried_forward line_words =
     contains ''BALANCECARRIEDFORWARD'' (no_spaces (line_text line_words))"

subsection \<open>Classifying the words of a line\<close>

text \<open>The six per-line variables the loop over a line's words fills in.\<close>

record line_fields =
  date_parts :: "string list"
  line_payment_type :: "string option"
  description_words :: "string list"
  line_paid_out :: "rat option"
  line_paid_in :: "rat option"
  line_balance :: "rat option"

definition empty_fields :: line_fields where
  "empty_fields =
     \<lparr>date_parts = [], line_payment_type = None, description_words = [],
      line_paid_out = None, line_paid_in = None, line_balance = None\<rparr>"

text \<open>The body of \<open>for w in line_words\<close>, branch by branch.\<close>

definition classify_word :: "line_fields \<Rightarrow> line_word \<Rightarrow> line_fields" where
  "classify_word lf w =
     (let x = fst w; text = snd w
      in if x < 100 then
           (if isdigit text \<and> length text \<le> 2
              then lf\<lparr>date_parts := date_parts lf @ [text]\<rparr>
            else if text \<in> set month_names
              then lf\<lparr>date_parts := date_parts lf @ [text]\<rparr>
            else if isdigit text \<and> length text = 2 \<and> length (date_parts lf) = 2
              then lf\<lparr>date_parts := date_parts lf @ [text]\<rparr>
            else lf)
         else if COL_PAYMENT_TYPE_MIN \<le> x \<and> x < COL_PAYMENT_TYPE_MAX then
           (if upper text \<in> set (map upper PAYMENT_TYPES)
              then lf\<lparr>line_payment_type := Some (upper text)\<rparr>
            else if text = '')))''
              then lf\<lparr>line_payment_type := Some '')))''\<rparr>
            else lf\<lparr>description_words := description_words lf @ [text]\<rparr>)
         else if AMOUNT_PATTERN_match text then
           (let amount = parse_amount text
            in if COL_PAID_OUT_MIN \<le> x \<and> x < COL_PAID_OUT_MAX
                 then lf\<lparr>line_paid_out := Some amount\<rparr>
               else if COL_PAID_IN_MIN \<le> x \<and> x < COL_PAID_IN_MAX
                 then lf\<lparr>line_paid_in := Some amount\<rparr>
               else if COL_BALANCE_MIN \<le> x
                 then lf\<lparr>line_balance := Some amount\<rparr>
               else lf\<lparr>description_words := description_words lf @ [text]\<rparr>)
         else if COL_DESCRIPTION_MIN \<le> x \<and> x < COL_PAID_OUT_MIN
           then lf\<lparr>description_words := description_words lf @ [text]\<rparr>
         else lf)"

definition classify_line :: "line_word list \<Rightarrow> line_fields" where
  "classify_line line_words = foldl classify_word empty_fields line_words"

subsection \<open>The transaction assembler\<close>

text \<open>
  Python truth values of the accumulator slots: a \<open>datetime\<close> is always true, a string
  is true when it is not empty, a float when it is not zero; \<open>None\<close> is false.
\<close>

definition truthy_date :: "datetime option \<Rightarrow> bool" where
  "truthy_date d = (d \<noteq> None)"

definition truthy_str :: "string option \<Rightarrow> bool" where
  "truthy_str s = (case s of None \<Rightarrow> False | Some t \<Rightarrow> t \<noteq> [])"

definition truthy_amount :: "rat option \<Rightarrow> bool" where
  "truthy_amount a = (case a of None \<Rightarrow> False | Some v \<Rightarrow> v \<noteq> 0)"

text \<open>
  The local variables of \<open>extract_transactions_from_words\<close> that outlive a line: the
  in-flight accumulator and the two result lists \<open>transactions\<close> and \<open>errors\<close>.
\<close>

record extractor_state =
  current_date :: "datetime option"
  current_payment_type :: "string option"
  current_description_parts :: "string list"
  current_paid_out :: "rat option"
  current_paid_in :: "rat option"
  current_balance :: "rat option"
  st_transactions :: "Transaction list"
  st_errors :: "message list"

definition initial_state :: extractor_state where
  "initial_state =
     \<lparr>current_date = None, current_payment_type = None, current_description_parts = [],
      current_paid_out = None, current_paid_in = None, current_balance = None,
      st_transactions = [], st_errors = []\<rparr>"

definition can_save :: "extractor_state \<Rightarrow> bool" where
  "can_save st =
     (truthy_date (current_date st) \<and> truthy_str (current_payment_type st)
      \<and> (truthy_amount (current_paid_out st) \<or> truthy_amount (current_paid_in st)))"

definition current_tx :: "extractor_state \<Rightarrow> Transaction" where
  "current_tx st =
     \<lparr>date = the (current_date st),
      payment_type = the (current_payment_type st),
      description = join '' '' (current_description_parts st),
      paid_out = current_paid_out st,
      paid_in = current_paid_in st,
      balance = current_balance st,
      raw_lines = []\<rparr>"

definition save_transaction :: "extractor_state \<Rightarrow> extractor_state" where
  "save_transaction st =
     (let st' = (if can_save st
                 then st\<lparr>st_transactions := st_transactions st @ [current_tx st]\<rparr>
                 else st)
      in st'\<lparr>current_description_parts := [],
             current_paid_out := None,
             current_paid_in := None,
             current_balance := None\<rparr>)"

text \<open>
  What the loop does with the fields found on a line, in the order of the source: a
  complete date, a payment type, the description words, the three amounts.
\<close>

definition apply_date :: "line_fields \<Rightarrow> extractor_state \<Rightarrow> extractor_state" where
  "apply_date lf st =
     (if length (date_parts lf) = 3
      then (save_transaction st)
             \<lparr>current_date :=
                parse_date_parts (date_parts lf ! 0) (date_parts lf ! 1) (date_parts lf ! 2)\<rparr>
      else st)"

definition apply_payment_type :: "line_fields \<Rightarrow> extractor_state \<Rightarrow> extractor_state" where
  "apply_payment_type lf st =
     (if truthy_str (line_payment_type lf)
      then (if truthy_str (current_payment_type st)
               \<and> (truthy_amount (current_paid_out st) \<or> truthy_amount (current_paid_in st))
            then save_transaction st else st)
             \<lparr>current_payment_type := line_payment_type lf\<rparr>
      else st)"

definition apply_description :: "line_fields \<Rightarrow> extractor_state \<Rightarrow> extractor_state" where
  "apply_description lf st =
     (if description_words lf \<noteq> [] \<and> truthy_str (current_payment_type st)
      then st\<lparr>current_description_parts := current_description_parts st @ description_words lf\<rparr>
      else st)"

definition apply_amounts :: "line_fields \<Rightarrow> extractor_state \<Rightarrow> extractor_state" where
  "apply_amounts lf st =
     (let st1 = (case line_paid_out lf of None \<Rightarrow> st
                 | Some v \<Rightarrow> st\<lparr>current_paid_out := Some v\<rparr>);
          st2 = (case line_paid_in lf of None \<Rightarrow> st1
                 | Some v \<Rightarrow> st1\<lparr>current_paid_in := Some v\<rparr>)
      in case line_balance lf of None \<Rightarrow> st2
         | Some v \<Rightarrow> st2\<lparr>current_balance := Some v\<rparr>)"

text \<open>The body of the loop over the lines of a page.\<close>

definition process_line :: "extractor_state \<Rightarrow> line_word list \<Rightarrow> extractor_state" where
  "process_line st line_words =
     (if is_skipped line_words then st
      else if is_brought_forward line_words then st
      else if is_carried_forward line_words
        then (save_transaction st)\<lparr>current_payment_type := None\<rparr>
      else
        let lf = classify_line line_words
        in apply_amounts lf (apply_description lf (apply_payment_type lf (apply_date lf st))))"

definition process_page :: "extractor_state \<Rightarrow> token list \<Rightarrow> extractor_state" where
  "process_page st words = foldl process_line st (page_lines words)"

text \<open>The state when the loop over the pages ends, before the last transaction is saved.\<close>

definition process_pages :: "token list list \<Rightarrow> extractor_state" where
  "process_pages pages_words = foldl process_page initial_state pages_words"

text \<open>The list \<open>transactions\<close> after the last \<open>save_transaction()\<close>, before it is sorted.\<close>

definition finalized :: "token list list \<Rightarrow> Transaction list" where
  "finalized pages_words = st_transactions (save_transaction (process_pages pages_words))"

text \<open>\<open>list.sort(key=...)\<close> is a stable sort; so is \<open>sort_key\<close>.\<close>

definition extract_transactions_from_words ::
    "token list list \<Rightarrow> Transaction list \<times> message list" where
  "extract_transactions_from_words pages_words =
     (let st = save_transaction (process_pages pages_words)
      in (sort_key date (st_transactions st), st_errors st))"

section \<open>Summary extraction\<close>

text \<open>
  The four patterns have one shape, a word, an optional \<open>s\<close> (only after \<open>Payment\<close>),
  \<open>\s*\<close>, a second word, \<open>\s*\<close>, an optional pound sign and the group
  \<open>([\d,]+\.\d{2})\<close>, searched with \<open>re.IGNORECASE\<close>. \<open>drop_literal\<close> consumes a
  literal without regard to letter case.
\<close>

fun drop_literal :: "string \<Rightarrow> string \<Rightarrow> string option" where
  "drop_literal [] s = Some s"
| "drop_literal (c # cs) [] = None"
| "drop_literal (c # cs) (d # ds) =
     (if lower_char c = lower_char d then drop_literal cs ds else None)"

text \<open>
  An optional item is tried first with the item consumed and, when the rest of the
  pattern fails then, without it.
\<close>

definition optional :: "(string \<Rightarrow> string option) \<Rightarrow> (string \<Rightarrow> 'a option) \<Rightarrow> string \<Rightarrow> 'a option" where
  "optional item rest s =
     (case (case item s of None \<Rightarrow> None | Some r \<Rightarrow> rest r) of
        Some g \<Rightarrow> Some g
      | None \<Rightarrow> rest s)"

text \<open>
  The pattern matched at the start of \<open>s\<close>; the result is group 1. A run \<open>\s*\<close> takes all
  the white space there is: what follows it in the pattern is never white space, so a
  shorter run cannot match.
\<close>

definition label_amount :: "string \<Rightarrow> bool \<Rightarrow> string \<Rightarrow> string \<Rightarrow> string option" where
  "label_amount w1 plural w2 s =
     (case drop_literal w1 s of
        None \<Rightarrow> None
      | Some r1 \<Rightarrow>
          (if plural then optional (drop_literal ''s'') else (\<lambda>rest. rest))
            (\<lambda>r2. case drop_literal w2 (dropWhile is_space r2) of
                    None \<Rightarrow> None
                  | Some r3 \<Rightarrow>
                      optional (drop_literal [pound])
                        (\<lambda>r4. map_option fst (amount_prefix r4))
                        (dropWhile is_space r3))
            r1)"

text \<open>\<open>re.search\<close>: the match at the leftmost position that has one.\<close>

fun re_search :: "(string \<Rightarrow> 'a option) \<Rightarrow> string \<Rightarrow> 'a option" where
  "re_search m [] = m []"
| "re_search m (c # cs) = (case m (c # cs) of Some g \<Rightarrow> Some g | None \<Rightarrow> re_search m cs)"

text \<open>The value stored under each key of the dictionary \<open>summary\<close>, if the key is set.\<close>

definition found_opening_balance :: "string \<Rightarrow> rat option" where
  "found_opening_balance txt =
     map_option parse_amount (re_search (label_amount ''Opening'' False ''Balance'') txt)"

definition found_closing_balance :: "string \<Rightarrow> rat option" where
  "found_closing_balance txt =
     map_option parse_amount (re_search (label_amount ''Closing'' False ''Balance'') txt)"

definition found_payments_in :: "string \<Rightarrow> rat option" where
  "found_payments_in txt =
     map_option parse_amount (re_search (label_amount ''Payment'' True ''In'') txt)"

definition found_payments_out :: "string \<Rightarrow> rat option" where
  "found_payments_out txt =
     map_option parse_amount (re_search (label_amount ''Payment'' True ''Out'') txt)"

text \<open>\<open>len(summary)\<close>: how many of the four keys are set.\<close>

definition found_count :: "string \<Rightarrow> nat" where
  "found_count txt =
     length (filter (\<lambda>v. v \<noteq> None)
       [found_opening_balance txt, found_closing_balance txt,
        found_payments_in txt, found_payments_out txt])"

text \<open>\<open>summary.get(key, 0)\<close>.\<close>

definition get_or_0 :: "rat option \<Rightarrow> rat" where
  "get_or_0 v = (case v of None \<Rightarrow> 0 | Some a \<Rightarrow> a)"

definition extract_summary :: "string \<Rightarrow> StatementSummary option" where
  "extract_summary txt =
     (if 2 \<le> found_count txt
      then Some \<lparr>opening_balance = get_or_0 (found_opening_balance txt),
                 closing_balance = get_or_0 (found_closing_balance txt),
                 payments_in = get_or_0 (found_payments_in txt),
                 payments_out = get_or_0 (found_payments_out txt),
                 statement_start = None,
                 statement_end = None\<rparr>
      else None)"

section \<open>Validation against the summary\<close>

text \<open>
  The validator computes with the doubles the program holds: an amount \<open>v\<close> of the model
  stands for the double \<open>round_double v\<close>, and every operation rounds. \<open>amount_or_0\<close> is
  \<open>v or 0\<close> on an optional amount; \<open>py_sum\<close> is the built-in \<open>sum\<close>, which starts from
  zero and adds from the left (CPython up to version 3.11; later versions also carry a
  correction term for the rounding errors).
\<close>

definition amount_or_0 :: "rat option \<Rightarrow> double" where
  "amount_or_0 a =
     (case a of
        None \<Rightarrow> Finite 0
      | Some v \<Rightarrow> if round_double v = Finite 0 then Finite 0 else round_double v)"

definition py_sum :: "double list \<Rightarrow> double" where
  "py_sum vs = foldl float_add (Finite 0) vs"

definition total_in :: "Transaction list \<Rightarrow> double" where
  "total_in txs = py_sum (map (\<lambda>t. amount_or_0 (paid_in t)) txs)"

definition total_out :: "Transaction list \<Rightarrow> double" where
  "total_out txs = py_sum (map (\<lambda>t. amount_or_0 (paid_out t)) txs)"

text \<open>The literal \<open>0.02\<close> is the double nearest to two hundredths.\<close>

definition tolerance :: double where
  "tolerance = round_double (2 / 100)"

definition validate_transactions ::
    "Transaction list \<Rightarrow> StatementSummary option \<Rightarrow> bool \<times> message list" where
  "validate_transactions txs smry =
     (if txs = [] then (False, [NoTransactionsExtracted])
      else case smry of
        None \<Rightarrow> (True, [NoSummaryForValidation])
      | Some s \<Rightarrow>
          let e1 = (if float_less tolerance
                         (float_abs (float_sub (total_in txs) (round_double (payments_in s))))
                    then [PaymentsInMismatch (total_in txs) (round_double (payments_in s))]
                    else []);
              e2 = (if float_less tolerance
                         (float_abs (float_sub (total_out txs) (round_double (payments_out s))))
                    then [PaymentsOutMismatch (total_out txs) (round_double (payments_out s))]
                    else []);
              expected_closing =
                float_sub (float_add (round_double (opening_balance s)) (total_in txs))
                  (total_out txs);
              e3 = (if float_less tolerance
                         (float_abs (float_sub expected_closing (round_double (closing_balance s))))
                    then [BalanceCalculation (round_double (opening_balance s)) (total_in txs)
                            (total_out txs) expected_closing (round_double (closing_balance s))]
                    else []);
              msgs = e1 @ e2 @ e3
          in (length msgs = 0, msgs))"

section \<open>Parsing a statement file\<close>

text \<open>
  What the parser reads from outside: whether the path exists, the name and suffix
  \<open>pathlib\<close> reports for it, and what the tokenizer does on the file. Opening the file
  or listing its pages may raise; so may either extraction call on a page.
\<close>

datatype 'a outcome = Raises string | Returns 'a

record page =
  extract_words :: "token list outcome"
  extract_text :: "string option outcome"

record pdf_file =
  path_exists :: bool
  path_name :: string
  path_suffix :: string
  pdf_pages :: "page list outcome"

record ParseResult =
  success :: bool
  transactions :: "Transaction list"
  summary :: "StatementSummary option"
  errors :: "message list"
  warnings :: "message list"
  filename :: string
  page_count :: nat

text \<open>
  The body of the loop of \<open>_extract_words_and_text\<close> for one page. When
  \<open>extract_text\<close> raises, the words of the page are already appended and the handler
  appends an empty list once more.
\<close>

definition text_or_empty :: "string option \<Rightarrow> string" where
  "text_or_empty t = (case t of None \<Rightarrow> [] | Some u \<Rightarrow> u)"

definition extract_page :: "token list list \<times> string list \<Rightarrow> page \<Rightarrow> token list list \<times> string list" where
  "extract_page acc p =
     (let (pages_words, pages_text) = acc
      in case extract_words p of
           Raises e \<Rightarrow> (pages_words @ [[]], pages_text @ [[]])
         | Returns words \<Rightarrow>
             (let pages_words' = pages_words @ [if words \<noteq> [] then words else []]
              in (case extract_text p of
                    Raises e \<Rightarrow> (pages_words' @ [[]], pages_text @ [[]])
                  | Returns t \<Rightarrow> (pages_words', pages_text @ [text_or_empty t]))))"

definition extract_words_and_text :: "pdf_file \<Rightarrow> (token list list \<times> string list) outcome" where
  "extract_words_and_text f =
     (case pdf_pages f of
        Raises e \<Rightarrow> Raises e
      | Returns ps \<Rightarrow> Returns (foldl extract_page ([], []) ps))"

definition parse :: "pdf_file \<Rightarrow> ParseResult" where
  "parse f =
     (let result = \<lparr>success = False, transactions = [], summary = None, errors = [],
                    warnings = [], filename = path_name f, page_count = 0\<rparr>
      in if \<not> path_exists f then result\<lparr>errors := errors result @ [FileNotFound]\<rparr>
         else if \<not> (lower (path_suffix f) = ''.pdf'')
           then result\<lparr>errors := errors result @ [NotAPdf]\<rparr>
         else case extract_words_and_text f of
           Raises e \<Rightarrow> result\<lparr>errors := errors result @ [ErrorParsing e]\<rparr>
         | Returns (pages_words, pages_text) \<Rightarrow>
             let result = result\<lparr>page_count := length pages_words\<rparr>
             in if pages_words = [] then result\<lparr>errors := errors result @ [NoContent]\<rparr>
                else
                  let full_text = join [CHR 0x0A] pages_text;
                      result = result\<lparr>summary := extract_summary full_text\<rparr>;
                      (txs, parse_errors) = extract_transactions_from_words pages_words;
                      result = result\<lparr>transactions := txs\<rparr>;
                      result = result\<lparr>errors := errors result @ parse_errors\<rparr>;
                      result =
                        (if summary result \<noteq> None
                         then (let (is_valid, validation_errors) =
                                     validate_transactions txs (summary result)
                               in if \<not> is_valid
                                  then result\<lparr>warnings := warnings result @ validation_errors\<rparr>
                                  else result)
                         else result)
                  in result\<lparr>success := (length (errors result) = 0 \<and> 0 < length txs)\<rparr>)"

section \<open>Predicates and sample inputs used in the properties\<close>

definition nonneg_opt :: "rat option \<Rightarrow> bool" where
  "nonneg_opt a = (case a of None \<Rightarrow> True | Some v \<Rightarrow> 0 \<le> v)"

definition positive_opt :: "rat option \<Rightarrow> bool" where
  "positive_opt a = (case a of None \<Rightarrow> False | Some v \<Rightarrow> 0 < v)"

definition tx_amounts_ok :: "Transaction \<Rightarrow> bool" where
  "tx_amounts_ok t =
     (nonneg_opt (paid_out t) \<and> nonneg_opt (paid_in t)
      \<and> (positive_opt (paid_out t) \<or> positive_opt (paid_in t)))"

definition fields_ok :: "line_fields \<Rightarrow> bool" where
  "fields_ok lf = (nonneg_opt (line_paid_out lf) \<and> nonneg_opt (line_paid_in lf))"

definition amounts_ok :: "extractor_state \<Rightarrow> bool" where
  "amounts_ok st =
     (nonneg_opt (current_paid_out st) \<and> nonneg_opt (current_paid_in st)
      \<and> list_all tx_amounts_ok (st_transactions st))"

definition mk_token :: "string \<Rightarrow> rat \<Rightarrow> rat \<Rightarrow> token" where
  "mk_token t x y = \<lparr>tok_text = t, tok_x0 = x, tok_top = y\<rparr>"

text \<open>
  A page of four lines: a direct debit on 7 Jan 24 with a continuation line, then a
  credit and a card payment on 5 Jan 24.
\<close>

definition sample_page :: "token list" where
  "sample_page =
     [mk_token ''07'' 40 100, mk_token ''Jan'' 55 100, mk_token ''24'' 75 100,
      mk_token ''DD'' 105 100, mk_token ''WATER'' 140 100, mk_token ''10.00'' 380 100,
      mk_token ''CO'' 140 112,
      mk_token ''05'' 40 124, mk_token ''Jan'' 55 124, mk_token ''24'' 75 124,
      mk_token ''CR'' 105 124, mk_token ''SALARY'' 140 124, mk_token ''50.00'' 450 124,
      mk_token ''140.00'' 520 124,
      mk_token ''VIS'' 105 136, mk_token ''SHOP'' 140 136, mk_token ''3.00'' 380 136]"

definition tx_water :: Transaction where
  "tx_water =
     \<lparr>date = (2024, 1, 7), payment_type = ''DD'', description = ''WATER CO'',
      paid_out = Some 10, paid_in = None, balance = None, raw_lines = []\<rparr>"

definition tx_salary :: Transaction where
  "tx_salary =
     \<lparr>date = (2024, 1, 5), payment_type = ''CR'', description = ''SALARY'',
      paid_out = None, paid_in = Some 50, balance = Some 140, raw_lines = []\<rparr>"

definition tx_shop :: Transaction where
  "tx_shop =
     \<lparr>date = (2024, 1, 5), payment_type = ''VIS'', description = ''SHOP'',
      paid_out = Some 3, paid_in = None, balance = None, raw_lines = []\<rparr>"

text \<open>A page whose only amount, in the paid-out band, is \<open>0.00\<close>.\<close>

definition zero_amount_page :: "token list" where
  "zero_amount_page =
     [mk_token ''5'' 40 100, mk_token ''Jan'' 55 100, mk_token ''24'' 75 100,
      mk_token ''DD'' 105 100, mk_token ''REFUND'' 140 100, mk_token ''0.00'' 380 100]"

text \<open>Statement files around the sample page, each with one page.\<close>

definition file_of :: "token list \<Rightarrow> string option \<Rightarrow> pdf_file" where
  "file_of words page_text =
     \<lparr>path_exists = True, path_name = ''statement.pdf'', path_suffix = ''.pdf'',
      pdf_pages = Returns [\<lparr>extract_words = Returns words, extract_text = Returns page_text\<rparr>]\<rparr>"

definition full_text :: string where
  "full_text =
     ''Opening Balance '' @ [pound] @ ''100.00'' @ [CHR 0x0A] @ ''Payments In 50.00''
       @ [CHR 0x0A] @ ''Payments Out 13.00'' @ [CHR 0x0A] @ ''Closing Balance 137.00''"

definition three_label_text :: string where
  "three_label_text = ''Opening Balance 100.00 Closing Balance 137.00 Payments In 50.00''"

text \<open>What a single word adds to the description words of its line.\<close>

definition word_description :: "line_word \<Rightarrow> string list" where
  "word_description w = description_words (classify_word empty_fields w)"

text \<open>
  What the four patterns say, read as languages: the text holds, somewhere, the first
  word, the optional \<open>s\<close>, white space, the second word, white space, an optional pound
  sign and a number of the money shape, letters compared without regard to case.
\<close>

definition same_letters :: "string \<Rightarrow> string \<Rightarrow> bool" where
  "same_letters a b = (map lower_char a = map lower_char b)"

definition money_shaped :: "string \<Rightarrow> bool" where
  "money_shaped g =
     (\<exists>run d1 d2. g = run @ [CHR ''.'', d1, d2] \<and> run \<noteq> []
        \<and> list_all (\<lambda>c. is_digit c \<or> c = CHR '','') run \<and> is_digit d1 \<and> is_digit d2)"

definition amount_here :: "string \<Rightarrow> bool" where
  "amount_here r = (\<exists>g rest. r = g @ rest \<and> money_shaped g)"

definition currency_amount_here :: "string \<Rightarrow> bool" where
  "currency_amount_here r =
     (\<exists>cur r'. r = cur @ r' \<and> (cur = [] \<or> cur = [pound]) \<and> amount_here r')"

definition word2_here :: "string \<Rightarrow> string \<Rightarrow> bool" where
  "word2_here w2 r =
     (\<exists>l2 ws2 r'. r = l2 @ ws2 @ r' \<and> same_letters l2 w2 \<and> list_all is_space ws2
        \<and> currency_amount_here r')"

definition label_here :: "string \<Rightarrow> bool \<Rightarrow> string \<Rightarrow> string \<Rightarrow> bool" where
  "label_here w1 plural w2 r =
     (\<exists>l1 sfx ws1 r'. r = l1 @ sfx @ ws1 @ r' \<and> same_letters l1 w1
        \<and> (sfx = [] \<or> plural \<and> same_letters sfx ''s'') \<and> list_all is_space ws1
        \<and> word2_here w2 r')"

definition label_occurs :: "string \<Rightarrow> bool \<Rightarrow> string \<Rightarrow> string \<Rightarrow> bool" where
  "label_occurs w1 plural w2 txt = (\<exists>before r. txt = before @ r \<and> label_here w1 plural w2 r)"

text \<open>
  Two lines: a date alone, then a direct debit with three description words and an
  amount in the paid-out band.
\<close>

definition direct_debit_page :: "token list" where
  "direct_debit_page =
     [mk_token ''5'' 40 100, mk_token ''Jan'' 55 100, mk_token ''24'' 75 100,
      mk_token ''DD'' 105 112, mk_token ''Direct'' 140 112, mk_token ''Debit'' 180 112,
      mk_token ''ABC'' 215 112, mk_token ''12.50'' 380 112]"

text \<open>
  A credit of \<open>0.05\<close> against a summary that declares payments in of \<open>0.03\<close>: the decimals
  are exactly \<open>0.02\<close> apart.
\<close>

definition gift_page :: "token list" where
  "gift_page =
     [mk_token ''5'' 40 100, mk_token ''Jan'' 55 100, mk_token ''24'' 75 100,
      mk_token ''CR'' 105 100, mk_token ''GIFT'' 140 100, mk_token ''0.05'' 450 100]"

definition gift_text :: string where
  "gift_text = ''Opening Balance 0.00 Payments In 0.03 Closing Balance 0.05''"

definition tx_gift :: Transaction where
  "tx_gift =
     \<lparr>date = (2024, 1, 5), payment_type = ''CR'', description = ''GIFT'',
      paid_out = None, paid_in = Some (5 / 100), balance = None, raw_lines = []\<rparr>"

definition gift_summary :: StatementSummary where
  "gift_summary =
     \<lparr>opening_balance = 0, closing_balance = 5 / 100, payments_in = 3 / 100,
      payments_out = 0, statement_start = None, statement_end = None\<rparr>"

text \<open>A credit of \<open>0.02\<close> against a summary that declares no payments at all.\<close>

definition fee_page :: "token list" where
  "fee_page =
     [mk_token ''5'' 40 100, mk_token ''Jan'' 55 100, mk_token ''24'' 75 100,
      mk_token ''CR'' 105 100, mk_token ''FEE'' 140 100, mk_token ''0.02'' 450 100]"

definition fee_text :: string where
  "fee_text = ''Payments In 0.00 Payments Out 0.00''"

definition tx_fee :: Transaction where
  "tx_fee =
     \<lparr>date = (2024, 1, 5), payment_type = ''CR'', description = ''FEE'',
      paid_out = None, paid_in = Some (2 / 100), balance = None, raw_lines = []\<rparr>"

definition no_payments_summary :: StatementSummary where
  "no_payments_summary =
     \<lparr>opening_balance = 0, closing_balance = 0, payments_in = 0,
      payments_out = 0, statement_start = None, statement_end = None\<rparr>"

section \<open>Properties\<close>

subsection \<open>Auxiliary facts\<close>

lemma foldl_invariant:
  assumes "P s" and "\<And>t x. P t \<Longrightarrow> P (f t x)"
  shows "P (foldl f s xs)"
  using assms(1)
proof (induction xs arbitrary: s)
  case Nil
  then show ?case by simp
next
  case (Cons x xs)
  from Cons.prems have "P (f s x)" by (rule assms(2))
  then show ?case by (simp add: Cons.IH)
qed

lemma sample_page_finalized: "finalized [sample_page] = [tx_water, tx_salary, tx_shop]"
  by code_simp

lemma sample_page_extracted:
  "extract_transactions_from_words [sample_page] = ([tx_salary, tx_shop, tx_water], [])"
  by code_simp

lemma zero_amount_state:
  "process_pages [zero_amount_page] =
     \<lparr>current_date = Some (2024, 1, 5), current_payment_type = Some ''DD'',
      current_description_parts = [''REFUND''], current_paid_out = Some 0,
      current_paid_in = None, current_balance = None,
      st_transactions = [], st_errors = []\<rparr>"
  by code_simp

text \<open>The model on the direct-debit scenario: one transaction, dated 5 January 2024.\<close>

lemma direct_debit_scenario:
  "fst (extract_transactions_from_words [direct_debit_page]) =
     [\<lparr>date = (2024, 1, 5), payment_type = ''DD'', description = ''Direct Debit ABC'',
       paid_out = Some (25 / 2), paid_in = None, balance = None, raw_lines = []\<rparr>]"
  by code_simp

subsection \<open>The errors list of the extractor\<close>

lemma save_transaction_errors: "st_errors (save_transaction st) = st_errors st"
  by (simp add: save_transaction_def Let_def)

lemma apply_date_errors: "st_errors (apply_date lf st) = st_errors st"
  by (simp add: apply_date_def save_transaction_errors)

lemma apply_payment_type_errors: "st_errors (apply_payment_type lf st) = st_errors st"
  by (simp add: apply_payment_type_def save_transaction_errors)

lemma apply_description_errors: "st_errors (apply_description lf st) = st_errors st"
  by (simp add: apply_description_def)

lemma apply_amounts_errors: "st_errors (apply_amounts lf st) = st_errors st"
  by (simp add: apply_amounts_def Let_def split: option.split)

lemma process_line_errors: "st_errors (process_line st line_words) = st_errors st"
  by (simp add: process_line_def Let_def save_transaction_errors apply_date_errors
      apply_payment_type_errors apply_description_errors apply_amounts_errors)

lemma process_page_errors: "st_errors (process_page st words) = st_errors st"
  unfolding process_page_def
  by (rule foldl_invariant [where P = "\<lambda>t. st_errors t = st_errors st"])
     (simp_all add: process_line_errors)

lemma process_pages_errors: "st_errors (process_pages pages_words) = []"
  unfolding process_pages_def
  by (rule foldl_invariant [where P = "\<lambda>t. st_errors t = []"])
     (simp_all add: process_page_errors initial_state_def)

lemma extract_errors_empty: "snd (extract_transactions_from_words pages_words) = []"
  by (simp add: extract_transactions_from_words_def Let_def save_transaction_errors
      process_pages_errors)

text \<open>
  Claim C10. Whatever the tokens are, the second component returned by
  \<open>extract_transactions_from_words\<close>, its list of parsing errors, is empty.
\<close>

theorem extractor_records_no_error:
  "snd (extract_transactions_from_words pages_words) = []"
  by (rule extract_errors_empty)

theorem extractor_records_no_error_witness:
  "snd (extract_transactions_from_words [sample_page, zero_amount_page]) = []"
  by (rule extractor_records_no_error)

subsection \<open>Order of the result\<close>

text \<open>
  Claim C2. The list returned by \<open>extract_transactions_from_words\<close> is in non-decreasing
  order of date, and for each date the transactions carrying it appear in the order in
  which they were finalized.
\<close>

theorem extract_sorted_stable:
  "sorted (map date (fst (extract_transactions_from_words pages_words)))
   \<and> (\<forall>d. filter (\<lambda>t. date t = d) (fst (extract_transactions_from_words pages_words))
          = filter (\<lambda>t. date t = d) (finalized pages_words))"
  by (simp add: extract_transactions_from_words_def finalized_def Let_def sort_key_stable)

theorem extract_sorted_stable_witness:
  "finalized [sample_page] = [tx_water, tx_salary, tx_shop]
   \<and> fst (extract_transactions_from_words [sample_page]) = [tx_salary, tx_shop, tx_water]
   \<and> sorted (map date [tx_salary, tx_shop, tx_water])
   \<and> filter (\<lambda>t. date t = (2024, 1, 5)) [tx_salary, tx_shop, tx_water]
       = filter (\<lambda>t. date t = (2024, 1, 5)) [tx_water, tx_salary, tx_shop]"
  using extract_sorted_stable [of "[sample_page]"]
  by (simp add: sample_page_finalized sample_page_extracted)

subsection \<open>The finalize rule\<close>

text \<open>
  Claim C1, as amended. At a finalization point \<open>save_transaction\<close> appends a
  transaction exactly when the accumulator holds a date, a non-empty payment type and
  at least one of paid-out and paid-in that is not zero; otherwise the list of
  transactions is unchanged. In both cases nothing is added to the errors list, and the
  description of the candidate is its word list joined by single spaces.
\<close>

theorem save_transaction_rule:
  "st_transactions (save_transaction st) =
     (if (\<exists>d. current_date st = Some d)
         \<and> (\<exists>p. current_payment_type st = Some p \<and> p \<noteq> [])
         \<and> ((\<exists>v. current_paid_out st = Some v \<and> v \<noteq> 0)
            \<or> (\<exists>v. current_paid_in st = Some v \<and> v \<noteq> 0))
      then st_transactions st @ [current_tx st]
      else st_transactions st)
   \<and> st_errors (save_transaction st) = st_errors st
   \<and> description (current_tx st) = join '' '' (current_description_parts st)"
  by (auto simp: save_transaction_def Let_def can_save_def truthy_date_def truthy_str_def
      truthy_amount_def current_tx_def split: option.splits)

lemma sample_page_state:
  "process_pages [sample_page] =
     \<lparr>current_date = Some (2024, 1, 5), current_payment_type = Some ''VIS'',
      current_description_parts = [''SHOP''], current_paid_out = Some 3,
      current_paid_in = None, current_balance = None,
      st_transactions = [tx_water, tx_salary], st_errors = []\<rparr>"
  by code_simp

theorem save_transaction_rule_witness:
  "st_transactions (save_transaction (process_pages [sample_page]))
     = st_transactions (process_pages [sample_page]) @ [tx_shop]
   \<and> st_errors (save_transaction (process_pages [sample_page])) = []
   \<and> st_transactions (save_transaction (process_pages [zero_amount_page])) = []"
  using save_transaction_rule [of "process_pages [sample_page]"]
    save_transaction_rule [of "process_pages [zero_amount_page]"]
  by (simp add: sample_page_state zero_amount_state current_tx_def tx_shop_def)

text \<open>
  The claim as stated fails on a candidate whose only amount is \<open>0.00\<close>: the accumulator
  holds a date, a payment type and a paid-out amount, and nothing is emitted.
\<close>

theorem zero_amount_not_emitted:
  "current_date (process_pages [zero_amount_page]) = Some (2024, 1, 5)
   \<and> current_payment_type (process_pages [zero_amount_page]) = Some ''DD''
   \<and> current_paid_out (process_pages [zero_amount_page]) = Some 0
   \<and> st_transactions (save_transaction (process_pages [zero_amount_page]))
       = st_transactions (process_pages [zero_amount_page])
   \<and> fst (extract_transactions_from_words [zero_amount_page]) = []"
  by (simp add: zero_amount_state save_transaction_def can_save_def truthy_amount_def
      extract_transactions_from_words_def Let_def)

text \<open>The payment type the assembler holds is never the empty string.\<close>

lemma payment_types_nonempty: "[] \<notin> set (map upper PAYMENT_TYPES)"
  by (simp add: PAYMENT_TYPES_def upper_def)

lemma classify_word_payment_type:
  assumes "line_payment_type lf \<noteq> Some []"
  shows "line_payment_type (classify_word lf w) \<noteq> Some []"
proof -
  have "upper (snd w) \<in> set (map upper PAYMENT_TYPES) \<Longrightarrow> upper (snd w) \<noteq> []"
    using payment_types_nonempty by metis
  with assms show ?thesis
    by (simp add: classify_word_def Let_def)
qed

lemma classify_line_payment_type: "line_payment_type (classify_line ws) \<noteq> Some []"
  unfolding classify_line_def
proof (rule foldl_invariant)
  show "line_payment_type empty_fields \<noteq> Some []" by (simp add: empty_fields_def)
qed (rule classify_word_payment_type)

lemma process_line_payment_type:
  "current_payment_type st \<noteq> Some [] \<Longrightarrow> current_payment_type (process_line st ws) \<noteq> Some []"
  using classify_line_payment_type [of ws]
  by (simp add: process_line_def Let_def apply_amounts_def apply_description_def
      apply_payment_type_def apply_date_def save_transaction_def split: option.split)

lemma process_pages_payment_type: "current_payment_type (process_pages pages_words) \<noteq> Some []"
  unfolding process_pages_def process_page_def
proof (rule foldl_invariant)
  show "current_payment_type initial_state \<noteq> Some []" by (simp add: initial_state_def)
next
  fix t :: extractor_state and x :: "token list"
  assume "current_payment_type t \<noteq> Some []"
  then show "current_payment_type (foldl process_line t (page_lines x)) \<noteq> Some []"
    by (rule foldl_invariant) (rule process_line_payment_type)
qed

subsection \<open>Amounts of emitted transactions\<close>

lemma py_float_nonneg: "py_float s = Some v \<Longrightarrow> 0 \<le> v"
  by (auto simp: py_float_def Let_def split: list.splits if_splits)

lemma parse_amount_nonneg: "0 \<le> parse_amount s"
  by (auto simp: parse_amount_def Let_def py_float_nonneg split: option.split)

lemma classify_word_fields_ok: "fields_ok lf \<Longrightarrow> fields_ok (classify_word lf w)"
  by (simp add: classify_word_def fields_ok_def Let_def nonneg_opt_def parse_amount_nonneg)

lemma classify_line_fields_ok: "fields_ok (classify_line ws)"
  unfolding classify_line_def
proof (rule foldl_invariant)
  show "fields_ok empty_fields"
    by (simp add: fields_ok_def empty_fields_def nonneg_opt_def)
qed (rule classify_word_fields_ok)

lemma truthy_nonneg_positive: "nonneg_opt a \<Longrightarrow> truthy_amount a \<Longrightarrow> positive_opt a"
  by (cases a) (simp_all add: nonneg_opt_def truthy_amount_def positive_opt_def)

lemma save_transaction_amounts_ok: "amounts_ok st \<Longrightarrow> amounts_ok (save_transaction st)"
  by (auto simp: amounts_ok_def save_transaction_def Let_def can_save_def current_tx_def
      tx_amounts_ok_def nonneg_opt_def dest: truthy_nonneg_positive[unfolded nonneg_opt_def])

lemma apply_date_amounts_ok: "amounts_ok st \<Longrightarrow> amounts_ok (apply_date lf st)"
  using save_transaction_amounts_ok [of st]
  by (simp add: apply_date_def amounts_ok_def)

lemma apply_payment_type_amounts_ok: "amounts_ok st \<Longrightarrow> amounts_ok (apply_payment_type lf st)"
  using save_transaction_amounts_ok [of st]
  by (simp add: apply_payment_type_def amounts_ok_def)

lemma apply_description_amounts_ok: "amounts_ok st \<Longrightarrow> amounts_ok (apply_description lf st)"
  by (simp add: apply_description_def amounts_ok_def)

lemma apply_amounts_amounts_ok:
  "fields_ok lf \<Longrightarrow> amounts_ok st \<Longrightarrow> amounts_ok (apply_amounts lf st)"
  by (auto simp: apply_amounts_def amounts_ok_def fields_ok_def Let_def nonneg_opt_def
      split: option.splits)

lemma process_line_amounts_ok: "amounts_ok st \<Longrightarrow> amounts_ok (process_line st ws)"
proof -
  assume ok: "amounts_ok st"
  have "amounts_ok ((save_transaction st)\<lparr>current_payment_type := None\<rparr>)"
    using save_transaction_amounts_ok [OF ok] by (simp add: amounts_ok_def)
  moreover have "amounts_ok (apply_amounts (classify_line ws) (apply_description (classify_line ws)
      (apply_payment_type (classify_line ws) (apply_date (classify_line ws) st))))"
    by (intro apply_amounts_amounts_ok apply_description_amounts_ok
        apply_payment_type_amounts_ok apply_date_amounts_ok classify_line_fields_ok ok)
  ultimately show ?thesis using ok by (simp add: process_line_def Let_def)
qed

lemma process_page_amounts_ok: "amounts_ok st \<Longrightarrow> amounts_ok (process_page st words)"
  unfolding process_page_def by (rule foldl_invariant) (assumption, rule process_line_amounts_ok)

lemma process_pages_amounts_ok: "amounts_ok (process_pages pages_words)"
  unfolding process_pages_def
proof (rule foldl_invariant)
  show "amounts_ok initial_state"
    by (simp add: amounts_ok_def initial_state_def nonneg_opt_def)
qed (rule process_page_amounts_ok)

text \<open>
  Claim C6. In every transaction of the list returned by
  \<open>extract_transactions_from_words\<close>, paid-out and paid-in are each absent or
  non-negative, and at least one of the two is strictly positive.
\<close>

theorem emitted_amounts:
  "\<forall>t \<in> set (fst (extract_transactions_from_words pages_words)).
     (case paid_out t of None \<Rightarrow> True | Some v \<Rightarrow> 0 \<le> v)
     \<and> (case paid_in t of None \<Rightarrow> True | Some v \<Rightarrow> 0 \<le> v)
     \<and> ((\<exists>v. paid_out t = Some v \<and> 0 < v) \<or> (\<exists>v. paid_in t = Some v \<and> 0 < v))"
proof
  fix t
  assume "t \<in> set (fst (extract_transactions_from_words pages_words))"
  then have mem: "t \<in> set (st_transactions (save_transaction (process_pages pages_words)))"
    by (simp add: extract_transactions_from_words_def Let_def)
  have "amounts_ok (save_transaction (process_pages pages_words))"
    by (rule save_transaction_amounts_ok) (rule process_pages_amounts_ok)
  then have "list_all tx_amounts_ok (st_transactions (save_transaction (process_pages pages_words)))"
    by (simp add: amounts_ok_def)
  with mem have "tx_amounts_ok t" by (simp add: list_all_iff)
  then show "(case paid_out t of None \<Rightarrow> True | Some v \<Rightarrow> 0 \<le> v)
     \<and> (case paid_in t of None \<Rightarrow> True | Some v \<Rightarrow> 0 \<le> v)
     \<and> ((\<exists>v. paid_out t = Some v \<and> 0 < v) \<or> (\<exists>v. paid_in t = Some v \<and> 0 < v))"
    by (auto simp: tx_amounts_ok_def nonneg_opt_def positive_opt_def split: option.splits)
qed

theorem emitted_amounts_witness:
  "tx_salary \<in> set (fst (extract_transactions_from_words [sample_page]))
   \<and> paid_out tx_salary = None \<and> (\<exists>v. paid_in tx_salary = Some v \<and> 0 < v)"
proof -
  have mem: "tx_salary \<in> set (fst (extract_transactions_from_words [sample_page]))"
    by (simp add: sample_page_extracted)
  from emitted_amounts [of "[sample_page]"] mem
  have "(\<exists>v. paid_out tx_salary = Some v \<and> 0 < v) \<or> (\<exists>v. paid_in tx_salary = Some v \<and> 0 < v)"
    by blast
  with mem show ?thesis by (simp add: tx_salary_def)
qed

subsection \<open>The success flag\<close>

text \<open>
  Claim C3. The result of \<open>parse\<close> has \<open>success\<close> true if and only if its errors list is
  empty and its transactions list is not.
\<close>

theorem parse_success_iff:
  "success (parse f) \<longleftrightarrow> errors (parse f) = [] \<and> transactions (parse f) \<noteq> []"
  by (simp add: parse_def Let_def split: outcome.split prod.split)

lemma full_text_found:
  "found_opening_balance full_text = Some 100"
  "found_closing_balance full_text = Some 137"
  "found_payments_in full_text = Some 50"
  "found_payments_out full_text = Some 13"
  by code_simp+

lemma sample_summary:
  "extract_summary full_text =
     Some \<lparr>opening_balance = 100, closing_balance = 137, payments_in = 50,
           payments_out = 13, statement_start = None, statement_end = None\<rparr>"
  by (simp add: extract_summary_def found_count_def full_text_found get_or_0_def)

lemma sample_validate:
  "validate_transactions [tx_salary, tx_shop, tx_water]
     (Some \<lparr>opening_balance = 100, closing_balance = 137, payments_in = 50,
            payments_out = 13, statement_start = None, statement_end = None\<rparr>) = (True, [])"
  by code_simp

lemma file_of_words_and_text:
  "extract_words_and_text (file_of words page_text) =
     Returns ([words], [text_or_empty page_text])"
  by (simp add: extract_words_and_text_def file_of_def extract_page_def)

lemma file_of_path:
  "path_exists (file_of words page_text)"
  "lower (path_suffix (file_of words page_text)) = ''.pdf''"
  "path_name (file_of words page_text) = ''statement.pdf''"
  by (simp_all add: file_of_def lower_def lower_char_def)

lemma sample_file_parse:
  "parse (file_of sample_page (Some full_text)) =
     \<lparr>success = True, transactions = [tx_salary, tx_shop, tx_water],
      summary = Some \<lparr>opening_balance = 100, closing_balance = 137, payments_in = 50,
                      payments_out = 13, statement_start = None, statement_end = None\<rparr>,
      errors = [], warnings = [], filename = ''statement.pdf'', page_count = 1\<rparr>"
  by (simp add: parse_def file_of_words_and_text file_of_path text_or_empty_def sample_summary
      sample_page_extracted sample_validate Let_def)

theorem parse_success_iff_witness:
  "success (parse (file_of sample_page (Some full_text)))
   \<and> errors (parse (file_of sample_page (Some full_text))) = []
   \<and> transactions (parse (file_of sample_page (Some full_text))) \<noteq> []"
  using parse_success_iff [of "file_of sample_page (Some full_text)"]
  by (simp add: sample_file_parse)

subsection \<open>Amount-shaped words outside the amount bands\<close>

lemmas col_defs = COL_PAYMENT_TYPE_MIN_def COL_PAYMENT_TYPE_MAX_def COL_DESCRIPTION_MIN_def
  COL_PAID_OUT_MIN_def COL_PAID_OUT_MAX_def COL_PAID_IN_MIN_def COL_PAID_IN_MAX_def
  COL_BALANCE_MIN_def

lemma classify_word_description:
  "description_words (classify_word lf w) = description_words lf @ word_description w"
proof (cases "fst w < 100")
  case True
  then show ?thesis
    by (simp add: word_description_def classify_word_def Let_def empty_fields_def)
next
  case False
  then show ?thesis
    by (simp add: word_description_def classify_word_def Let_def empty_fields_def col_defs)
qed

lemma foldl_classify_description:
  "description_words (foldl classify_word lf ws)
     = description_words lf @ concat (map word_description ws)"
proof (induction ws arbitrary: lf)
  case Nil
  then show ?case by simp
next
  case (Cons w ws)
  then show ?case by (simp add: classify_word_description)
qed

lemma classify_line_description:
  "description_words (classify_line ws) = concat (map word_description ws)"
  by (simp add: classify_line_def foldl_classify_description empty_fields_def)

lemma word_description_date_band: "fst w < 100 \<Longrightarrow> word_description w = []"
  by (simp add: word_description_def classify_word_def Let_def empty_fields_def)

lemma amount_prefix_first:
  "amount_prefix s = Some r \<Longrightarrow> s \<noteq> [] \<and> (is_digit (hd s) \<or> hd s = CHR '','')"
  by (cases s) (auto simp: amount_prefix_def Let_def split: if_splits)

lemma upper_char_other: "c \<notin> set ''abcdefghijklmnopqrstuvwxyz'' \<Longrightarrow> upper_char c = c"
  by (simp add: upper_char_def)

lemma digit_not_letter: "c \<in> set ''0123456789,'' \<Longrightarrow> c \<notin> set ''abcdefghijklmnopqrstuvwxyz''"
  by auto

lemma payment_type_heads:
  "\<forall>p \<in> set (map upper PAYMENT_TYPES). p \<noteq> [] \<and> hd p \<notin> set ''0123456789,''"
  by (simp add: PAYMENT_TYPES_def upper_def upper_char_def)

lemma amount_not_payment_type:
  assumes "AMOUNT_PATTERN_match t"
  shows "upper t \<notin> set (map upper PAYMENT_TYPES)" and "t \<noteq> '')))''"
proof -
  from assms obtain r where "amount_prefix t = Some r"
    by (auto simp: AMOUNT_PATTERN_match_def split: option.splits)
  then have ne: "t \<noteq> []" and hd: "is_digit (hd t) \<or> hd t = CHR '',''"
    using amount_prefix_first by blast+
  from ne obtain c cs where t: "t = c # cs" by (cases t) auto
  with hd have c: "c \<in> set ''0123456789,''" by (auto simp: is_digit_def)
  then have "upper_char c = c" by (intro upper_char_other digit_not_letter)
  with c have "hd (upper t) \<in> set ''0123456789,''" by (simp add: t upper_def)
  with payment_type_heads show "upper t \<notin> set (map upper PAYMENT_TYPES)" by blast
  from c show "t \<noteq> '')))''" by (auto simp: t)
qed

lemma word_description_amount:
  assumes "AMOUNT_PATTERN_match (snd w)" and "100 \<le> fst w"
    and "\<not> (COL_PAID_OUT_MIN \<le> fst w \<and> fst w < COL_PAID_OUT_MAX)"
    and "\<not> (COL_PAID_IN_MIN \<le> fst w \<and> fst w < COL_PAID_IN_MAX)"
    and "\<not> COL_BALANCE_MIN \<le> fst w"
  shows "word_description w = [snd w]"
  using assms amount_not_payment_type [OF assms(1)]
  by (simp add: word_description_def classify_word_def Let_def empty_fields_def col_defs)

lemma concat_filter_nil:
  "(\<And>x. x \<in> set xs \<Longrightarrow> \<not> P x \<Longrightarrow> f x = []) \<Longrightarrow> concat (map f (filter P xs)) = concat (map f xs)"
  by (induction xs) auto

text \<open>
  Claim C7, as amended. A word of a line whose text has the amount shape and whose
  horizontal position is at or right of 100 and outside the paid-out, paid-in and balance
  bands is among the description words of the line; this covers the payment-type band.
  Words of the date band, left of 100, add nothing to the description words: the line
  has the same description words with and without them.
\<close>

theorem amount_shaped_description:
  "(\<forall>w \<in> set line_words.
      AMOUNT_PATTERN_match (snd w) \<and> 100 \<le> fst w
      \<and> \<not> (COL_PAID_OUT_MIN \<le> fst w \<and> fst w < COL_PAID_OUT_MAX)
      \<and> \<not> (COL_PAID_IN_MIN \<le> fst w \<and> fst w < COL_PAID_IN_MAX)
      \<and> \<not> COL_BALANCE_MIN \<le> fst w
      \<longrightarrow> snd w \<in> set (description_words (classify_line line_words)))
   \<and> description_words (classify_line line_words)
       = description_words (classify_line (filter (\<lambda>w. 100 \<le> fst w) line_words))"
proof (intro conjI ballI impI)
  fix w
  assume mem: "w \<in> set line_words"
    and c: "AMOUNT_PATTERN_match (snd w) \<and> 100 \<le> fst w
      \<and> \<not> (COL_PAID_OUT_MIN \<le> fst w \<and> fst w < COL_PAID_OUT_MAX)
      \<and> \<not> (COL_PAID_IN_MIN \<le> fst w \<and> fst w < COL_PAID_IN_MAX)
      \<and> \<not> COL_BALANCE_MIN \<le> fst w"
  then have "word_description w = [snd w]" by (intro word_description_amount) simp_all
  with mem show "snd w \<in> set (description_words (classify_line line_words))"
    unfolding classify_line_description by force
next
  have "concat (map word_description (filter (\<lambda>w. 100 \<le> fst w) line_words))
          = concat (map word_description line_words)"
    by (rule concat_filter_nil) (simp add: word_description_date_band)
  then show "description_words (classify_line line_words)
       = description_words (classify_line (filter (\<lambda>w. 100 \<le> fst w) line_words))"
    by (simp add: classify_line_description)
qed

lemma amount_match_sample: "AMOUNT_PATTERN_match ''12.50''"
  by code_simp

text \<open>
  The claim as stated fails in the date band: the word \<open>12.50\<close> at position 50 has the
  amount shape and lies outside the three amount bands, and the description words of
  its line are empty.
\<close>

theorem amount_in_date_band_dropped:
  "AMOUNT_PATTERN_match ''12.50''
   \<and> \<not> (COL_PAID_OUT_MIN \<le> (50::rat) \<and> (50::rat) < COL_PAID_OUT_MAX)
   \<and> \<not> (COL_PAID_IN_MIN \<le> (50::rat) \<and> (50::rat) < COL_PAID_IN_MAX)
   \<and> \<not> COL_BALANCE_MIN \<le> (50::rat)
   \<and> description_words (classify_line [(50, ''12.50'')]) = []"
  by (simp add: amount_match_sample col_defs classify_line_description word_description_date_band)

theorem amount_shaped_description_witness:
  "''7.00'' \<in> set (description_words (classify_line [(50, ''12.50''), (200, ''7.00'')]))
   \<and> description_words (classify_line [(50, ''12.50''), (200, ''7.00'')])
      = description_words (classify_line [(200, ''7.00'')])"
proof -
  note rule = amount_shaped_description [of "[(50, ''12.50''), (200, ''7.00'')]"]
  have m: "AMOUNT_PATTERN_match ''7.00''" by code_simp
  from rule have "\<forall>w \<in> set [(50, ''12.50''), (200, ''7.00'')].
      AMOUNT_PATTERN_match (snd w) \<and> 100 \<le> fst w
      \<and> \<not> (COL_PAID_OUT_MIN \<le> fst w \<and> fst w < COL_PAID_OUT_MAX)
      \<and> \<not> (COL_PAID_IN_MIN \<le> fst w \<and> fst w < COL_PAID_IN_MAX)
      \<and> \<not> COL_BALANCE_MIN \<le> fst w
      \<longrightarrow> snd w \<in> set (description_words (classify_line [(50, ''12.50''), (200, ''7.00'')]))"
    by (rule conjunct1)
  from this [rule_format, of "(200, ''7.00'')"] m
  have mem: "''7.00'' \<in> set (description_words (classify_line [(50, ''12.50''), (200, ''7.00'')]))"
    by (simp add: col_defs)
  from rule have eq: "description_words (classify_line [(50, ''12.50''), (200, ''7.00'')])
      = description_words (classify_line [(200, ''7.00'')])"
    by simp
  show ?thesis by (intro conjI mem eq)
qed

subsection \<open>Validation and the parse result\<close>

lemma amount_or_0_double:
  "amount_or_0 a = (case a of None \<Rightarrow> Finite 0 | Some v \<Rightarrow> round_double v)"
  by (simp add: amount_or_0_def split: option.split)

lemma validate_messages:
  assumes "txs \<noteq> []"
  shows "snd (validate_transactions txs (Some s)) =
     (if float_less tolerance
           (float_abs (float_sub (total_in txs) (round_double (payments_in s))))
      then [PaymentsInMismatch (total_in txs) (round_double (payments_in s))] else [])
     @ (if float_less tolerance
             (float_abs (float_sub (total_out txs) (round_double (payments_out s))))
        then [PaymentsOutMismatch (total_out txs) (round_double (payments_out s))] else [])
     @ (if float_less tolerance
             (float_abs (float_sub
                (float_sub (float_add (round_double (opening_balance s)) (total_in txs))
                   (total_out txs))
                (round_double (closing_balance s))))
        then [BalanceCalculation (round_double (opening_balance s)) (total_in txs)
                (total_out txs)
                (float_sub (float_add (round_double (opening_balance s)) (total_in txs))
                   (total_out txs))
                (round_double (closing_balance s))]
        else [])"
    and "fst (validate_transactions txs (Some s)) \<longleftrightarrow> snd (validate_transactions txs (Some s)) = []"
  using assms by (simp_all add: validate_transactions_def Let_def)

text \<open>The result of \<open>parse\<close> when the file is read and has at least one page.\<close>

lemma parse_pages:
  assumes "path_exists f" and "lower (path_suffix f) = ''.pdf''"
    and "extract_words_and_text f = Returns (pages_words, pages_text)"
    and "pages_words \<noteq> []"
  shows "parse f =
     \<lparr>success = (fst (extract_transactions_from_words pages_words) \<noteq> []),
      transactions = fst (extract_transactions_from_words pages_words),
      summary = extract_summary (join [CHR 0x0A] pages_text),
      errors = [],
      warnings =
        (case extract_summary (join [CHR 0x0A] pages_text) of
           None \<Rightarrow> []
         | Some s \<Rightarrow>
             if fst (validate_transactions (fst (extract_transactions_from_words pages_words)) (Some s))
             then []
             else snd (validate_transactions (fst (extract_transactions_from_words pages_words)) (Some s))),
      filename = path_name f,
      page_count = length pages_words\<rparr>"
  using assms extract_errors_empty [of pages_words]
  by (simp add: parse_def Let_def case_prod_beta split: option.split)

text \<open>On every other path the result has no transactions, no summary and no warnings.\<close>

lemma parse_other:
  assumes "\<not> (path_exists f \<and> lower (path_suffix f) = ''.pdf''
      \<and> (\<exists>pages_words pages_text.
            extract_words_and_text f = Returns (pages_words, pages_text) \<and> pages_words \<noteq> []))"
  shows "transactions (parse f) = []" and "summary (parse f) = None"
    and "warnings (parse f) = []" and "\<not> success (parse f)" and "errors (parse f) \<noteq> []"
  using assms by (auto simp: parse_def Let_def split: outcome.split prod.split)

text \<open>
  Claim C4. For a non-empty transaction list and a summary, the validator reports a
  payments-in (payments-out) mismatch exactly when the absolute difference between the
  sum of the paid-in (paid-out) amounts, an absent amount counting as zero, and the
  summary's field exceeds 0.02, and a balance message exactly when the absolute value of
  opening balance plus total in minus total out minus closing balance exceeds 0.02; the
  sums, differences and comparisons are the program's, in double precision. When \<open>parse\<close>
  has produced transactions and a summary, its warnings are exactly these messages, and
  \<open>success\<close> is true whatever they are.
\<close>

theorem validation_warnings:
  "(txs \<noteq> [] \<longrightarrow>
      ((\<exists>a b. PaymentsInMismatch a b \<in> set (snd (validate_transactions txs (Some s))))
         \<longleftrightarrow> float_less (round_double (2 / 100))
               (float_abs (float_sub
                  (py_sum (map (\<lambda>t. case paid_in t of None \<Rightarrow> Finite 0 | Some v \<Rightarrow> round_double v) txs))
                  (round_double (payments_in s)))))
    \<and> ((\<exists>a b. PaymentsOutMismatch a b \<in> set (snd (validate_transactions txs (Some s))))
         \<longleftrightarrow> float_less (round_double (2 / 100))
               (float_abs (float_sub
                  (py_sum (map (\<lambda>t. case paid_out t of None \<Rightarrow> Finite 0 | Some v \<Rightarrow> round_double v) txs))
                  (round_double (payments_out s)))))
    \<and> ((\<exists>a b c d e. BalanceCalculation a b c d e \<in> set (snd (validate_transactions txs (Some s))))
         \<longleftrightarrow> float_less (round_double (2 / 100))
               (float_abs (float_sub
                  (float_sub
                     (float_add (round_double (opening_balance s))
                        (py_sum (map (\<lambda>t. case paid_in t of None \<Rightarrow> Finite 0 | Some v \<Rightarrow> round_double v) txs)))
                     (py_sum (map (\<lambda>t. case paid_out t of None \<Rightarrow> Finite 0 | Some v \<Rightarrow> round_double v) txs)))
                  (round_double (closing_balance s))))))
   \<and> (transactions (parse f) \<noteq> [] \<longrightarrow> summary (parse f) = Some s' \<longrightarrow>
        warnings (parse f) = snd (validate_transactions (transactions (parse f)) (Some s'))
        \<and> success (parse f))"
proof (intro conjI impI)
  assume ne: "txs \<noteq> []"
  note msgs = validate_messages(1) [OF ne, of s]
  have tin: "py_sum (map (\<lambda>t. case paid_in t of None \<Rightarrow> Finite 0 | Some v \<Rightarrow> round_double v) txs)
      = total_in txs"
    by (simp add: total_in_def amount_or_0_double)
  have tout: "py_sum (map (\<lambda>t. case paid_out t of None \<Rightarrow> Finite 0 | Some v \<Rightarrow> round_double v) txs)
      = total_out txs"
    by (simp add: total_out_def amount_or_0_double)
  show "(\<exists>a b. PaymentsInMismatch a b \<in> set (snd (validate_transactions txs (Some s))))
         \<longleftrightarrow> float_less (round_double (2 / 100))
               (float_abs (float_sub
                  (py_sum (map (\<lambda>t. case paid_in t of None \<Rightarrow> Finite 0 | Some v \<Rightarrow> round_double v) txs))
                  (round_double (payments_in s))))"
    unfolding msgs tin by (simp add: tolerance_def)
  show "(\<exists>a b. PaymentsOutMismatch a b \<in> set (snd (validate_transactions txs (Some s))))
         \<longleftrightarrow> float_less (round_double (2 / 100))
               (float_abs (float_sub
                  (py_sum (map (\<lambda>t. case paid_out t of None \<Rightarrow> Finite 0 | Some v \<Rightarrow> round_double v) txs))
                  (round_double (payments_out s))))"
    unfolding msgs tout by (simp add: tolerance_def)
  show "(\<exists>a b c d e. BalanceCalculation a b c d e \<in> set (snd (validate_transactions txs (Some s))))
         \<longleftrightarrow> float_less (round_double (2 / 100))
               (float_abs (float_sub
                  (float_sub
                     (float_add (round_double (opening_balance s))
                        (py_sum (map (\<lambda>t. case paid_in t of None \<Rightarrow> Finite 0 | Some v \<Rightarrow> round_double v) txs)))
                     (py_sum (map (\<lambda>t. case paid_out t of None \<Rightarrow> Finite 0 | Some v \<Rightarrow> round_double v) txs)))
                  (round_double (closing_balance s))))"
    unfolding msgs tin tout by (simp add: tolerance_def)
next
  assume tx: "transactions (parse f) \<noteq> []" and sm: "summary (parse f) = Some s'"
  from tx parse_other(1) [of f] obtain pages_words pages_text
    where p: "path_exists f" "lower (path_suffix f) = ''.pdf''"
      "extract_words_and_text f = Returns (pages_words, pages_text)" "pages_words \<noteq> []"
    by blast
  note r = parse_pages [OF p]
  from tx r have ne: "fst (extract_transactions_from_words pages_words) \<noteq> []" by simp
  from sm r have s: "extract_summary (join [CHR 0x0A] pages_text) = Some s'" by simp
  show "warnings (parse f) = snd (validate_transactions (transactions (parse f)) (Some s'))"
    using validate_messages(2) [OF ne, of s'] by (simp add: r s)
  show "success (parse f)" using ne by (simp add: r)
qed

text \<open>
  The credit of \<open>0.05\<close> against declared payments in of \<open>0.03\<close>: the decimals are exactly
  \<open>0.02\<close> apart, the doubles nearest to them differ by more than the double nearest to
  \<open>0.02\<close>, and the mismatch is reported.
\<close>

lemma gift_extracted: "extract_transactions_from_words [gift_page] = ([tx_gift], [])"
  by code_simp

lemma gift_extract_summary: "extract_summary gift_text = Some gift_summary"
  by code_simp

lemma gift_validate:
  "validate_transactions [tx_gift] (Some gift_summary) =
     (False, [PaymentsInMismatch (Finite (3602879701896397 / 72057594037927936))
                (Finite (1080863910568919 / 36028797018963968))])"
  by code_simp

lemma gift_parse:
  "transactions (parse (file_of gift_page (Some gift_text))) = [tx_gift]"
  "summary (parse (file_of gift_page (Some gift_text))) = Some gift_summary"
  "warnings (parse (file_of gift_page (Some gift_text))) =
     [PaymentsInMismatch (Finite (3602879701896397 / 72057594037927936))
        (Finite (1080863910568919 / 36028797018963968))]"
  "success (parse (file_of gift_page (Some gift_text)))"
  by (simp_all add: parse_pages [OF file_of_path(1,2) file_of_words_and_text]
      text_or_empty_def gift_extract_summary gift_extracted gift_validate)

theorem validation_warnings_witness:
  "transactions (parse (file_of gift_page (Some gift_text))) = [tx_gift]
   \<and> warnings (parse (file_of gift_page (Some gift_text))) =
       [PaymentsInMismatch (Finite (3602879701896397 / 72057594037927936))
          (Finite (1080863910568919 / 36028797018963968))]
   \<and> success (parse (file_of gift_page (Some gift_text)))
   \<and> float_less (round_double (2 / 100))
        (float_abs (float_sub
           (py_sum (map (\<lambda>t. case paid_in t of None \<Rightarrow> Finite 0 | Some v \<Rightarrow> round_double v) [tx_gift]))
           (round_double (payments_in gift_summary))))"
proof -
  let ?f = "file_of gift_page (Some gift_text)"
  note rule = validation_warnings [of "[tx_gift]" gift_summary ?f gift_summary]
  have "\<exists>a b. PaymentsInMismatch a b \<in> set (snd (validate_transactions [tx_gift] (Some gift_summary)))"
    by (simp add: gift_validate)
  with rule have less: "float_less (round_double (2 / 100))
        (float_abs (float_sub
           (py_sum (map (\<lambda>t. case paid_in t of None \<Rightarrow> Finite 0 | Some v \<Rightarrow> round_double v) [tx_gift]))
           (round_double (payments_in gift_summary))))"
    by blast
  from rule gift_parse(1,2)
  have "warnings (parse ?f) = snd (validate_transactions (transactions (parse ?f)) (Some gift_summary))"
    and ok: "success (parse ?f)"
    by simp_all
  then have "warnings (parse ?f) =
       [PaymentsInMismatch (Finite (3602879701896397 / 72057594037927936))
          (Finite (1080863910568919 / 36028797018963968))]"
    by (simp add: gift_parse(1) gift_validate)
  with less ok gift_parse(1) show ?thesis by (intro conjI)
qed

text \<open>
  The credit of \<open>0.02\<close> against declared payments in of \<open>0.00\<close>: the difference is the
  tolerance itself, which it does not exceed, and nothing is reported.
\<close>

lemma fee_extracted: "extract_transactions_from_words [fee_page] = ([tx_fee], [])"
  by code_simp

lemma fee_found:
  "found_opening_balance fee_text = None"
  "found_closing_balance fee_text = None"
  "found_payments_in fee_text = Some 0"
  "found_payments_out fee_text = Some 0"
  by code_simp+

lemma fee_extract_summary: "extract_summary fee_text = Some no_payments_summary"
  by (simp add: extract_summary_def found_count_def fee_found get_or_0_def no_payments_summary_def)

lemma fee_validate: "validate_transactions [tx_fee] (Some no_payments_summary) = (True, [])"
  by code_simp

lemma fee_parse:
  "warnings (parse (file_of fee_page (Some fee_text))) = []"
  "success (parse (file_of fee_page (Some fee_text)))"
  by (simp_all add: parse_pages [OF file_of_path(1,2) file_of_words_and_text]
      text_or_empty_def fee_extract_summary fee_extracted fee_validate)

text \<open>The sample page against the text that lacks Payments Out.\<close>

lemma three_label_found:
  "found_opening_balance three_label_text = Some 100"
  "found_closing_balance three_label_text = Some 137"
  "found_payments_in three_label_text = Some 50"
  "found_payments_out three_label_text = None"
  by code_simp+

lemma three_label_summary:
  "extract_summary three_label_text =
     Some \<lparr>opening_balance = 100, closing_balance = 137, payments_in = 50,
           payments_out = 0, statement_start = None, statement_end = None\<rparr>"
  by (simp add: extract_summary_def found_count_def three_label_found get_or_0_def)

lemma three_label_validate:
  "validate_transactions [tx_salary, tx_shop, tx_water]
     (Some \<lparr>opening_balance = 100, closing_balance = 137, payments_in = 50,
            payments_out = 0, statement_start = None, statement_end = None\<rparr>) =
     (False, [PaymentsOutMismatch (Finite 13) (Finite 0)])"
  by code_simp

lemma three_label_parse:
  "parse (file_of sample_page (Some three_label_text)) =
     \<lparr>success = True, transactions = [tx_salary, tx_shop, tx_water],
      summary = Some \<lparr>opening_balance = 100, closing_balance = 137, payments_in = 50,
                      payments_out = 0, statement_start = None, statement_end = None\<rparr>,
      errors = [], warnings = [PaymentsOutMismatch (Finite 13) (Finite 0)],
      filename = ''statement.pdf'', page_count = 1\<rparr>"
  by (simp add: parse_pages [OF file_of_path(1,2) file_of_words_and_text] file_of_path
      text_or_empty_def three_label_summary sample_page_extracted three_label_validate)

text \<open>
  Claim C9, as amended. When the file is read, has at least one page, and
  \<open>extract_summary\<close> finds no summary in its text, validation is skipped: the result has
  no summary and no warning, and \<open>success\<close> is true exactly when a transaction was
  extracted, so the absence alone does not make it false.
\<close>

theorem absent_summary_no_warning:
  assumes "path_exists f" and "lower (path_suffix f) = ''.pdf''"
    and "extract_words_and_text f = Returns (pages_words, pages_text)"
    and "pages_words \<noteq> []"
    and "extract_summary (join [CHR 0x0A] pages_text) = None"
  shows "summary (parse f) = None \<and> warnings (parse f) = []
     \<and> (success (parse f) \<longleftrightarrow> fst (extract_transactions_from_words pages_words) \<noteq> [])"
  using assms(5) by (simp add: parse_pages [OF assms(1-4)])

lemma empty_text_summary: "extract_summary [] = None"
  by code_simp

lemma no_text_parse:
  "parse (file_of sample_page None) =
     \<lparr>success = True, transactions = [tx_salary, tx_shop, tx_water], summary = None,
      errors = [], warnings = [], filename = ''statement.pdf'', page_count = 1\<rparr>"
  by (simp add: parse_pages [OF file_of_path(1,2) file_of_words_and_text] file_of_path
      text_or_empty_def empty_text_summary sample_page_extracted)

theorem absent_summary_no_warning_witness:
  "summary (parse (file_of sample_page None)) = None
   \<and> warnings (parse (file_of sample_page None)) = []
   \<and> success (parse (file_of sample_page None))"
  using absent_summary_no_warning [OF file_of_path(1,2) file_of_words_and_text,
      of sample_page None]
  by (simp add: text_or_empty_def empty_text_summary sample_page_extracted)

text \<open>
  The claim as stated fails: for the sample page with no page text, \<open>extract_summary\<close>
  returns \<open>None\<close> and the result carries no warning about it.
\<close>

theorem absent_summary_unreported:
  "extract_words_and_text (file_of sample_page None) = Returns ([sample_page], [[]])
   \<and> extract_summary (join [CHR 0x0A] [[]]) = None
   \<and> warnings (parse (file_of sample_page None)) = []"
  by (simp add: file_of_words_and_text text_or_empty_def empty_text_summary no_text_parse)

lemma blank_extracted: "extract_transactions_from_words [[]] = ([], [])"
  by code_simp

text \<open>
  Claim C8 asks for an error message when every page yields no token. On a file with one
  page and no words, the list of per-page word lists is \<open>[[]]\<close>, which is not empty, so
  the test \<open>not pages_words\<close> does not fire: the result has \<open>success\<close> false and an
  empty errors list.
\<close>

theorem blank_pages_no_error:
  "extract_words_and_text (file_of [] None) = Returns ([[]], [[]])
   \<and> errors (parse (file_of [] None)) = []
   \<and> \<not> success (parse (file_of [] None))
   \<and> page_count (parse (file_of [] None)) = 1"
  by (simp add: parse_pages [OF file_of_path(1,2) file_of_words_and_text]
      file_of_words_and_text text_or_empty_def blank_extracted)

lemma blank_pages_state:
  "list_all (\<lambda>ws. ws = []) pages_words \<Longrightarrow> foldl process_page st pages_words = st"
  by (induction pages_words arbitrary: st)
     (simp_all add: process_page_def page_lines_def group_lines_def)

lemma blank_pages_extracted:
  assumes "list_all (\<lambda>ws. ws = []) pages_words"
  shows "extract_transactions_from_words pages_words = ([], [])"
  using blank_pages_state [OF assms, of initial_state]
  by (simp add: extract_transactions_from_words_def process_pages_def save_transaction_def
      can_save_def truthy_date_def initial_state_def Let_def)

text \<open>
  The same holds for every file that is read and has pages, none of which yields a word.
\<close>

lemma all_pages_blank:
  assumes "path_exists f" and "lower (path_suffix f) = ''.pdf''"
    and "extract_words_and_text f = Returns (pages_words, pages_text)"
    and "pages_words \<noteq> []" and "list_all (\<lambda>ws. ws = []) pages_words"
  shows "errors (parse f) = [] \<and> \<not> success (parse f)"
  by (simp add: parse_pages [OF assms(1-4)] blank_pages_extracted [OF assms(5)])

subsection \<open>The summary extractor\<close>

text \<open>Facts about single characters.\<close>

lemma lower_char_other: "c \<notin> set ''ABCDEFGHIJKLMNOPQRSTUVWXYZ'' \<Longrightarrow> lower_char c = c"
  by (simp add: lower_char_def)

lemma lower_char_letter:
  "c \<in> set ''ABCDEFGHIJKLMNOPQRSTUVWXYZ'' \<Longrightarrow> lower_char c \<in> set ''abcdefghijklmnopqrstuvwxyz''"
  by (auto simp: lower_char_def)

lemma space_not_upper: "is_space c \<Longrightarrow> c \<notin> set ''ABCDEFGHIJKLMNOPQRSTUVWXYZ''"
  by (auto simp: is_space_def)

lemma is_space_lower: "is_space c \<Longrightarrow> lower_char c = c"
  by (intro lower_char_other space_not_upper)

lemma space_not_lower_letter: "is_space c \<Longrightarrow> c \<notin> set ''abcdefghijklmnopqrstuvwxyz''"
  by (auto simp: is_space_def)

text \<open>A character that reads as a letter is not white space.\<close>

lemma letter_not_space:
  assumes "lower_char c \<in> set ''abcdefghijklmnopqrstuvwxyz''"
  shows "\<not> is_space c"
proof
  assume sp: "is_space c"
  then have "lower_char c = c" by (rule is_space_lower)
  with assms have "c \<in> set ''abcdefghijklmnopqrstuvwxyz''" by simp
  with space_not_lower_letter [OF sp] show False by contradiction
qed

lemma lower_char_pound: "lower_char c = pound \<longleftrightarrow> c = pound"
proof (cases "c \<in> set ''ABCDEFGHIJKLMNOPQRSTUVWXYZ''")
  case True
  then have "lower_char c \<in> set ''abcdefghijklmnopqrstuvwxyz''" by (rule lower_char_letter)
  then have "lower_char c \<noteq> pound" by (auto simp: pound_def)
  moreover from True have "c \<noteq> pound" by (auto simp: pound_def)
  ultimately show ?thesis by simp
next
  case False
  then show ?thesis by (simp add: lower_char_other)
qed

lemma not_space_pound: "\<not> is_space pound"
  by (simp add: is_space_def pound_def)

lemma not_space_digit: "is_digit c \<or> c = CHR '','' \<Longrightarrow> \<not> is_space c"
  by (auto simp: is_space_def is_digit_def)
text \<open>
  The matcher against the reading of the patterns as languages: each building block
  succeeds exactly on the texts its piece of the pattern describes.
\<close>

lemma drop_literal_iff:
  "drop_literal w s = Some r \<longleftrightarrow> (\<exists>l. s = l @ r \<and> same_letters l w)"
proof (induction w s rule: drop_literal.induct)
  case (1 s)
  show ?case by (auto simp: same_letters_def)
next
  case (2 c cs)
  show ?case by (auto simp: same_letters_def)
next
  case (3 c cs d ds)
  show ?case
  proof (cases "lower_char c = lower_char d")
    case True
    with 3 show ?thesis
      by (auto simp: same_letters_def Cons_eq_append_conv map_eq_Cons_conv)
  next
    case False
    then show ?thesis
      by (auto simp: same_letters_def Cons_eq_append_conv map_eq_Cons_conv)
  qed
qed

lemma re_search_iff:
  "re_search m s \<noteq> None \<longleftrightarrow> (\<exists>pre post. s = pre @ post \<and> m post \<noteq> None)"
proof (induction s)
  case Nil
  show ?case by simp
next
  case (Cons c cs)
  show ?case
  proof (cases "m (c # cs)")
    case None
    then have "re_search m (c # cs) \<noteq> None \<longleftrightarrow> (\<exists>pre post. cs = pre @ post \<and> m post \<noteq> None)"
      using Cons.IH by simp
    also have "\<dots> \<longleftrightarrow> (\<exists>pre post. c # cs = pre @ post \<and> m post \<noteq> None)"
      using None by (auto simp: Cons_eq_append_conv)
    finally show ?thesis .
  next
    case (Some g)
    then have "c # cs = [] @ (c # cs) \<and> m (c # cs) \<noteq> None" by simp
    then have "\<exists>pre post. c # cs = pre @ post \<and> m post \<noteq> None" by blast
    with Some show ?thesis by simp
  qed
qed

lemma optional_iff:
  "optional item k s \<noteq> None \<longleftrightarrow> (\<exists>r. item s = Some r \<and> k r \<noteq> None) \<or> k s \<noteq> None"
  by (auto simp: optional_def split: option.splits)

lemma skip_spaces_iff:
  assumes "\<And>r. Q r \<Longrightarrow> r \<noteq> [] \<and> \<not> is_space (hd r)"
  shows "Q (dropWhile is_space s) \<longleftrightarrow> (\<exists>ws r. s = ws @ r \<and> list_all is_space ws \<and> Q r)"
proof
  assume "Q (dropWhile is_space s)"
  moreover have "s = takeWhile is_space s @ dropWhile is_space s" by simp
  moreover have "list_all is_space (takeWhile is_space s)"
    by (auto simp: list_all_iff dest: set_takeWhileD)
  ultimately show "\<exists>ws r. s = ws @ r \<and> list_all is_space ws \<and> Q r" by blast
next
  assume "\<exists>ws r. s = ws @ r \<and> list_all is_space ws \<and> Q r"
  then obtain ws r where s: "s = ws @ r" and ws: "list_all is_space ws" and q: "Q r" by blast
  from assms [OF q] obtain c cs where r: "r = c # cs" and c: "\<not> is_space c"
    by (cases r) auto
  from ws have "dropWhile is_space (ws @ r) = dropWhile is_space r"
    by (intro dropWhile_append2) (simp add: list_all_iff)
  with c have "dropWhile is_space s = r" by (simp add: s r)
  with q show "Q (dropWhile is_space s)" by simp
qed

lemma class_run:
  assumes "list_all P run" and "\<not> P p"
  shows "takeWhile P (run @ p # rest) = run" and "dropWhile P (run @ p # rest) = p # rest"
proof -
  from assms(1) have all: "\<And>c. c \<in> set run \<Longrightarrow> P c" by (simp add: list_all_iff)
  from all have "takeWhile P (run @ p # rest) = run @ takeWhile P (p # rest)"
    by (rule takeWhile_append2)
  with assms(2) show "takeWhile P (run @ p # rest) = run" by simp
  from all have "dropWhile P (run @ p # rest) = dropWhile P (p # rest)"
    by (rule dropWhile_append2)
  with assms(2) show "dropWhile P (run @ p # rest) = p # rest" by simp
qed

lemma point_not_in_class: "\<not> (is_digit CHR ''.'' \<or> CHR ''.'' = CHR '','')"
  by (simp add: is_digit_def)

lemma amount_prefix_iff:
  "amount_prefix r = Some (g, rest) \<longleftrightarrow> r = g @ rest \<and> money_shaped g"
proof
  assume a: "amount_prefix r = Some (g, rest)"
  let ?P = "\<lambda>c. is_digit c \<or> c = CHR '',''"
  from a have run: "takeWhile ?P r \<noteq> []"
    by (auto simp: amount_prefix_def Let_def split: if_splits)
  from a run obtain d1 d2 where d: "dropWhile ?P r = CHR ''.'' # d1 # d2 # rest"
    and dig: "is_digit d1" "is_digit d2" and g: "g = takeWhile ?P r @ [CHR ''.'', d1, d2]"
    by (auto simp: amount_prefix_def Let_def split: if_splits list.splits)
  have "r = takeWhile ?P r @ dropWhile ?P r" by simp
  with d g have "r = g @ rest" by simp
  moreover have "list_all ?P (takeWhile ?P r)"
    by (auto simp: list_all_iff dest: set_takeWhileD)
  with run dig g have "money_shaped g" unfolding money_shaped_def by blast
  ultimately show "r = g @ rest \<and> money_shaped g" by simp
next
  assume "r = g @ rest \<and> money_shaped g"
  then obtain run d1 d2 where r: "r = run @ CHR ''.'' # d1 # d2 # rest"
    and g: "g = run @ [CHR ''.'', d1, d2]" and run: "run \<noteq> []"
    and cls: "list_all (\<lambda>c. is_digit c \<or> c = CHR '','') run" and dig: "is_digit d1" "is_digit d2"
    by (auto simp: money_shaped_def)
  note cr = class_run [OF cls point_not_in_class, of "d1 # d2 # rest"]
  show "amount_prefix r = Some (g, rest)"
    unfolding amount_prefix_def r cr using run dig g by (simp add: Let_def)
qed

lemma amount_here_iff: "map_option fst (amount_prefix r) \<noteq> None \<longleftrightarrow> amount_here r"
proof -
  have "map_option fst (amount_prefix r) \<noteq> None \<longleftrightarrow> (\<exists>g rest. amount_prefix r = Some (g, rest))"
    by (cases "amount_prefix r") auto
  then show ?thesis by (simp add: amount_prefix_iff amount_here_def)
qed

lemma amount_here_first: "amount_here r \<Longrightarrow> r \<noteq> [] \<and> (is_digit (hd r) \<or> hd r = CHR '','')"
  by (cases "hd r = CHR '',''")
     (auto simp: amount_here_def money_shaped_def list_all_iff hd_append)
lemma lower_char_pound_self: "lower_char pound = pound"
  by (simp add: lower_char_pound)

lemma drop_pound_iff: "drop_literal [pound] r = Some r' \<longleftrightarrow> r = pound # r'"
proof -
  have "same_letters l [pound] \<longleftrightarrow> l = [pound]" for l
    by (cases l) (auto simp: same_letters_def lower_char_pound_self lower_char_pound)
  then show ?thesis by (simp add: drop_literal_iff)
qed

lemma currency_amount_iff:
  "optional (drop_literal [pound]) (\<lambda>r4. map_option fst (amount_prefix r4)) r \<noteq> None
     \<longleftrightarrow> currency_amount_here r"
proof -
  have "currency_amount_here r \<longleftrightarrow> (\<exists>r'. r = pound # r' \<and> amount_here r') \<or> amount_here r"
  proof
    assume "currency_amount_here r"
    then obtain cur r' where "r = cur @ r'" and "cur = [] \<or> cur = [pound]" and "amount_here r'"
      unfolding currency_amount_here_def by blast
    then show "(\<exists>r'. r = pound # r' \<and> amount_here r') \<or> amount_here r" by auto
  next
    assume "(\<exists>r'. r = pound # r' \<and> amount_here r') \<or> amount_here r"
    then show "currency_amount_here r"
    proof
      assume "\<exists>r'. r = pound # r' \<and> amount_here r'"
      then obtain r' where "r = [pound] @ r'" and "amount_here r'" by auto
      then show ?thesis unfolding currency_amount_here_def by blast
    next
      assume "amount_here r"
      then have "r = [] @ r \<and> amount_here r" by simp
      then show ?thesis unfolding currency_amount_here_def by blast
    qed
  qed
  then show ?thesis
    by (simp add: optional_iff drop_pound_iff amount_here_iff [symmetric] del: not_None_eq)
qed

lemma currency_amount_first:
  assumes "currency_amount_here r"
  shows "r \<noteq> [] \<and> \<not> is_space (hd r)"
proof -
  from assms obtain cur r' where r: "r = cur @ r'" and cur: "cur = [] \<or> cur = [pound]"
    and a: "amount_here r'"
    unfolding currency_amount_here_def by blast
  from amount_here_first [OF a] have "r' \<noteq> []" and "\<not> is_space (hd r')"
    using not_space_digit by blast+
  with cur r show ?thesis by (auto simp: not_space_pound)
qed

lemma same_letters_first:
  assumes "same_letters l w" and "w \<noteq> []"
  shows "l \<noteq> [] \<and> lower_char (hd l) = lower_char (hd w)"
  using assms by (cases l; cases w) (auto simp: same_letters_def)

lemma word2_iff:
  "(case drop_literal w2 r of
      None \<Rightarrow> None
    | Some r3 \<Rightarrow>
        optional (drop_literal [pound]) (\<lambda>r4. map_option fst (amount_prefix r4))
          (dropWhile is_space r3)) \<noteq> None
   \<longleftrightarrow> word2_here w2 r"
proof -
  have "(case drop_literal w2 r of
      None \<Rightarrow> None
    | Some r3 \<Rightarrow>
        optional (drop_literal [pound]) (\<lambda>r4. map_option fst (amount_prefix r4))
          (dropWhile is_space r3)) \<noteq> None
    \<longleftrightarrow> (\<exists>r3. drop_literal w2 r = Some r3 \<and> currency_amount_here (dropWhile is_space r3))"
    by (cases "drop_literal w2 r") (simp_all add: currency_amount_iff del: not_None_eq)
  also have "\<dots> \<longleftrightarrow> (\<exists>r3 l2. r = l2 @ r3 \<and> same_letters l2 w2
      \<and> (\<exists>ws2 r'. r3 = ws2 @ r' \<and> list_all is_space ws2 \<and> currency_amount_here r'))"
    by (simp add: drop_literal_iff skip_spaces_iff [of currency_amount_here, OF currency_amount_first])
       blast
  also have "\<dots> \<longleftrightarrow> word2_here w2 r"
    unfolding word2_here_def by blast
  finally show ?thesis .
qed

lemma word2_first:
  assumes "word2_here w2 r" and "w2 \<noteq> []"
    and "lower_char (hd w2) \<in> set ''abcdefghijklmnopqrstuvwxyz''"
  shows "r \<noteq> [] \<and> \<not> is_space (hd r)"
proof -
  from assms(1) obtain l2 rest where r: "r = l2 @ rest" and l2: "same_letters l2 w2"
    unfolding word2_here_def by blast
  from same_letters_first [OF l2 assms(2)] have ne: "l2 \<noteq> []"
    and "lower_char (hd l2) = lower_char (hd w2)" by simp_all
  with assms(3) have "\<not> is_space (hd l2)" by (intro letter_not_space) simp
  with ne r show ?thesis by simp
qed

lemma after_word1_iff:
  assumes "w2 \<noteq> []" and "lower_char (hd w2) \<in> set ''abcdefghijklmnopqrstuvwxyz''"
  shows "(case drop_literal w2 (dropWhile is_space r2) of
            None \<Rightarrow> None
          | Some r3 \<Rightarrow>
              optional (drop_literal [pound]) (\<lambda>r4. map_option fst (amount_prefix r4))
                (dropWhile is_space r3)) \<noteq> None
         \<longleftrightarrow> (\<exists>ws1 r'. r2 = ws1 @ r' \<and> list_all is_space ws1 \<and> word2_here w2 r')"
  unfolding word2_iff
  by (rule skip_spaces_iff) (rule word2_first [OF _ assms])

lemma drop_s_iff: "drop_literal ''s'' r = Some r' \<longleftrightarrow> (\<exists>sfx. r = sfx @ r' \<and> same_letters sfx ''s'')"
  by (rule drop_literal_iff)

lemma label_amount_iff:
  assumes "w2 \<noteq> []" and "lower_char (hd w2) \<in> set ''abcdefghijklmnopqrstuvwxyz''"
  shows "label_amount w1 plural w2 s \<noteq> None \<longleftrightarrow> label_here w1 plural w2 s"
proof -
  let ?K = "\<lambda>r2. case drop_literal w2 (dropWhile is_space r2) of
                    None \<Rightarrow> None
                  | Some r3 \<Rightarrow>
                      optional (drop_literal [pound])
                        (\<lambda>r4. map_option fst (amount_prefix r4))
                        (dropWhile is_space r3)"
  let ?T = "\<lambda>r. \<exists>ws1 r'. r = ws1 @ r' \<and> list_all is_space ws1 \<and> word2_here w2 r'"
  have K: "?K r \<noteq> None \<longleftrightarrow> ?T r" for r
    by (rule after_word1_iff [OF assms])
  have tail: "(if plural then optional (drop_literal ''s'') else (\<lambda>rest. rest)) ?K r1 \<noteq> None
      \<longleftrightarrow> (\<exists>sfx r. r1 = sfx @ r \<and> (sfx = [] \<or> plural \<and> same_letters sfx ''s'') \<and> ?T r)" for r1
  proof (cases plural)
    case True
    have "optional (drop_literal ''s'') ?K r1 \<noteq> None
        \<longleftrightarrow> (\<exists>r. (\<exists>sfx. r1 = sfx @ r \<and> same_letters sfx ''s'') \<and> ?T r) \<or> ?T r1"
      unfolding optional_iff K drop_s_iff ..
    also have "\<dots> \<longleftrightarrow> (\<exists>sfx r. r1 = sfx @ r \<and> (sfx = [] \<or> same_letters sfx ''s'') \<and> ?T r)"
      by (rule iffI) (force, fastforce)
    finally show ?thesis using True by simp
  next
    case False
    then show ?thesis using K [of r1] by (simp del: not_None_eq)
  qed
  have "label_amount w1 plural w2 s \<noteq> None
      \<longleftrightarrow> (\<exists>r1. drop_literal w1 s = Some r1
            \<and> (if plural then optional (drop_literal ''s'') else (\<lambda>rest. rest)) ?K r1 \<noteq> None)"
    unfolding label_amount_def by (cases "drop_literal w1 s") simp_all
  also have "\<dots> \<longleftrightarrow> (\<exists>r1 l1. s = l1 @ r1 \<and> same_letters l1 w1
      \<and> (\<exists>sfx r. r1 = sfx @ r \<and> (sfx = [] \<or> plural \<and> same_letters sfx ''s'') \<and> ?T r))"
    unfolding tail drop_literal_iff by blast
  also have "\<dots> \<longleftrightarrow> label_here w1 plural w2 s"
    unfolding label_here_def by blast
  finally show ?thesis .
qed

lemma re_search_label_iff:
  assumes "w2 \<noteq> []" and "lower_char (hd w2) \<in> set ''abcdefghijklmnopqrstuvwxyz''"
  shows "re_search (label_amount w1 plural w2) s \<noteq> None \<longleftrightarrow> label_occurs w1 plural w2 s"
  by (simp add: re_search_iff label_amount_iff [OF assms] label_occurs_def del: not_None_eq)

lemma found_iff:
  "found_opening_balance s \<noteq> None \<longleftrightarrow> label_occurs ''Opening'' False ''Balance'' s"
  "found_closing_balance s \<noteq> None \<longleftrightarrow> label_occurs ''Closing'' False ''Balance'' s"
  "found_payments_in s \<noteq> None \<longleftrightarrow> label_occurs ''Payment'' True ''In'' s"
  "found_payments_out s \<noteq> None \<longleftrightarrow> label_occurs ''Payment'' True ''Out'' s"
proof -
  have b: "lower_char (hd ''Balance'') \<in> set ''abcdefghijklmnopqrstuvwxyz''"
    and i: "lower_char (hd ''In'') \<in> set ''abcdefghijklmnopqrstuvwxyz''"
    and out: "lower_char (hd ''Out'') \<in> set ''abcdefghijklmnopqrstuvwxyz''"
    by (simp_all add: lower_char_def)
  show "found_opening_balance s \<noteq> None \<longleftrightarrow> label_occurs ''Opening'' False ''Balance'' s"
    using re_search_label_iff [OF _ b, of "''Opening''" False s]
    by (simp add: found_opening_balance_def del: not_None_eq)
  show "found_closing_balance s \<noteq> None \<longleftrightarrow> label_occurs ''Closing'' False ''Balance'' s"
    using re_search_label_iff [OF _ b, of "''Closing''" False s]
    by (simp add: found_closing_balance_def del: not_None_eq)
  show "found_payments_in s \<noteq> None \<longleftrightarrow> label_occurs ''Payment'' True ''In'' s"
    using re_search_label_iff [OF _ i, of "''Payment''" True s]
    by (simp add: found_payments_in_def del: not_None_eq)
  show "found_payments_out s \<noteq> None \<longleftrightarrow> label_occurs ''Payment'' True ''Out'' s"
    using re_search_label_iff [OF _ out, of "''Payment''" True s]
    by (simp add: found_payments_out_def del: not_None_eq)
qed
text \<open>
  Claim C5. \<open>extract_summary\<close> returns a summary if and only if at least two of the four
  labels occur in the text followed by a money-shaped number; in a returned summary every
  field whose label does not occur is zero; in particular a text with the three labels
  other than Payments Out yields a summary with \<open>payments_out = 0\<close>.
\<close>

theorem extract_summary_rule:
  "(extract_summary s \<noteq> None \<longleftrightarrow>
      2 \<le> length (filter id
             [label_occurs ''Opening'' False ''Balance'' s,
              label_occurs ''Closing'' False ''Balance'' s,
              label_occurs ''Payment'' True ''In'' s,
              label_occurs ''Payment'' True ''Out'' s]))
   \<and> (\<forall>sm. extract_summary s = Some sm \<longrightarrow>
          (\<not> label_occurs ''Opening'' False ''Balance'' s \<longrightarrow> opening_balance sm = 0)
        \<and> (\<not> label_occurs ''Closing'' False ''Balance'' s \<longrightarrow> closing_balance sm = 0)
        \<and> (\<not> label_occurs ''Payment'' True ''In'' s \<longrightarrow> payments_in sm = 0)
        \<and> (\<not> label_occurs ''Payment'' True ''Out'' s \<longrightarrow> payments_out sm = 0))
   \<and> (label_occurs ''Opening'' False ''Balance'' s
        \<and> label_occurs ''Closing'' False ''Balance'' s
        \<and> label_occurs ''Payment'' True ''In'' s
        \<and> \<not> label_occurs ''Payment'' True ''Out'' s
        \<longrightarrow> (\<exists>sm. extract_summary s = Some sm \<and> payments_out sm = 0))"
proof -
  have count: "found_count s = length (filter id
             [label_occurs ''Opening'' False ''Balance'' s,
              label_occurs ''Closing'' False ''Balance'' s,
              label_occurs ''Payment'' True ''In'' s,
              label_occurs ''Payment'' True ''Out'' s])"
    unfolding found_count_def found_iff [symmetric] by simp
  have absent: "found_opening_balance s = None" if "\<not> label_occurs ''Opening'' False ''Balance'' s"
    using that found_iff(1) [of s] by simp
  have absent2: "found_closing_balance s = None" if "\<not> label_occurs ''Closing'' False ''Balance'' s"
    using that found_iff(2) [of s] by simp
  have absent3: "found_payments_in s = None" if "\<not> label_occurs ''Payment'' True ''In'' s"
    using that found_iff(3) [of s] by simp
  have absent4: "found_payments_out s = None" if "\<not> label_occurs ''Payment'' True ''Out'' s"
    using that found_iff(4) [of s] by simp
  have one: "extract_summary s \<noteq> None \<longleftrightarrow>
      2 \<le> length (filter id
             [label_occurs ''Opening'' False ''Balance'' s,
              label_occurs ''Closing'' False ''Balance'' s,
              label_occurs ''Payment'' True ''In'' s,
              label_occurs ''Payment'' True ''Out'' s])"
    unfolding count [symmetric] by (simp add: extract_summary_def)
  have two: "\<forall>sm. extract_summary s = Some sm \<longrightarrow>
          (\<not> label_occurs ''Opening'' False ''Balance'' s \<longrightarrow> opening_balance sm = 0)
        \<and> (\<not> label_occurs ''Closing'' False ''Balance'' s \<longrightarrow> closing_balance sm = 0)
        \<and> (\<not> label_occurs ''Payment'' True ''In'' s \<longrightarrow> payments_in sm = 0)
        \<and> (\<not> label_occurs ''Payment'' True ''Out'' s \<longrightarrow> payments_out sm = 0)"
    by (auto simp: extract_summary_def get_or_0_def absent absent2 absent3 absent4
        split: if_splits)
  have three: "\<exists>sm. extract_summary s = Some sm \<and> payments_out sm = 0"
    if "label_occurs ''Opening'' False ''Balance'' s
        \<and> label_occurs ''Closing'' False ''Balance'' s
        \<and> label_occurs ''Payment'' True ''In'' s
        \<and> \<not> label_occurs ''Payment'' True ''Out'' s"
  proof -
    from that one have "extract_summary s \<noteq> None" by simp
    then obtain sm where "extract_summary s = Some sm" by blast
    with two that show ?thesis by blast
  qed
  from one two three show ?thesis by blast
qed

theorem extract_summary_rule_witness:
  "label_occurs ''Opening'' False ''Balance'' three_label_text
   \<and> label_occurs ''Closing'' False ''Balance'' three_label_text
   \<and> label_occurs ''Payment'' True ''In'' three_label_text
   \<and> \<not> label_occurs ''Payment'' True ''Out'' three_label_text
   \<and> (\<exists>sm. extract_summary three_label_text = Some sm \<and> payments_out sm = 0)"
proof -
  have occ: "label_occurs ''Opening'' False ''Balance'' three_label_text
   \<and> label_occurs ''Closing'' False ''Balance'' three_label_text
   \<and> label_occurs ''Payment'' True ''In'' three_label_text
   \<and> \<not> label_occurs ''Payment'' True ''Out'' three_label_text"
    unfolding found_iff [symmetric] by (simp add: three_label_found)
  with extract_summary_rule [of three_label_text] show ?thesis by blast
qed

end
